theory Spec2Isabelle
  imports Main
begin

section \<open>JavaScript values\<close>

text \<open>
  A JavaScript value that is a string, \<open>null\<close> or \<open>undefined\<close> is a
  \<open>string option\<close>. Such a value is truthy when it is a non-empty string.
\<close>

definition truthy :: "string option \<Rightarrow> bool" where
  "truthy v = (case v of None \<Rightarrow> False | Some s \<Rightarrow> s \<noteq> [])"

text \<open>\<^verbatim>\<open>a || b\<close> on two such values.\<close>

definition js_or :: "string option \<Rightarrow> string option \<Rightarrow> string option" where
  "js_or a b = (if truthy a then a else b)"

text \<open>\<^verbatim>\<open>a || 'literal'\<close>: the result is always a string.\<close>

definition or_default :: "string option \<Rightarrow> string \<Rightarrow> string" where
  "or_default a d = (case a of None \<Rightarrow> d | Some s \<Rightarrow> if s = [] then d else s)"

section \<open>The relational store and the identity provider\<close>

datatype inv_status = Pending | Accepted | Cancelled | Expired

record invitation_row =
  inv_id :: nat
  inv_workspace_id :: string
  inv_email :: string
  inv_role :: string
  inv_status :: inv_status
  inv_invited_by :: string
  inv_accepted_at :: "nat option"

record member_row =
  mem_workspace_id :: string
  mem_user_id :: string
  mem_role :: string

record role_row =
  ur_user_id :: string
  ur_role :: string

record auth_user =
  au_id :: string
  au_email :: string
  email_confirmed_at :: "nat option"

text \<open>A mail that the mail service accepted for delivery.\<close>

record mail =
  mail_to :: string
  mail_link :: string

record backend =
  workspace_invitations :: "invitation_row list"
  workspace_members :: "member_row list"
  user_roles :: "role_row list"
  auth_users :: "auth_user list"
  sent_mail :: "mail list"

text \<open>
  Errors of the store. The handlers inspect the message of an error with
  \<^verbatim>\<open>message.includes(...)\<close>; the constructors stand for the messages they
  tell apart: \<open>NoSingleRow\<close> is PGRST116 (\<^verbatim>\<open>.single()\<close> on zero or several rows),
  \<open>DuplicateKeyValue\<close> a message with \<^verbatim>\<open>duplicate key value\<close>,
  \<open>RelationDoesNotExist\<close> a message with \<^verbatim>\<open>does not exist\<close>,
  \<open>UserNotFound\<close> the identity provider's error for an id that it does not know, and
  \<open>OtherStoreError\<close> any other failure (network, row-level security).
\<close>

datatype pg_error =
  NoSingleRow | DuplicateKeyValue | RelationDoesNotExist | UserNotFound | OtherStoreError

text \<open>
  Every call of the store takes a \<open>fault\<close>: \<open>Some e\<close> when the store fails the
  call for a reason outside the tables, in which case nothing is written.
\<close>

text \<open>\<^verbatim>\<open>.select(...).eq(...).single()\<close>: the data is the row when exactly one row matches.\<close>

definition single_row :: "pg_error option \<Rightarrow> 'a list \<Rightarrow> 'a option \<times> pg_error option" where
  "single_row fault rows =
     (case fault of
        Some e \<Rightarrow> (None, Some e)
      | None \<Rightarrow> (case rows of [r] \<Rightarrow> (Some r, None) | _ \<Rightarrow> (None, Some NoSingleRow)))"

definition member_key :: "string \<Rightarrow> string \<Rightarrow> member_row \<Rightarrow> bool" where
  "member_key w u m = (mem_workspace_id m = w \<and> mem_user_id m = u)"

definition invitation_key :: "string \<Rightarrow> string \<Rightarrow> invitation_row \<Rightarrow> bool" where
  "invitation_key w e i = (inv_workspace_id i = w \<and> inv_email i = e)"

definition pending_for :: "string \<Rightarrow> invitation_row \<Rightarrow> bool" where
  "pending_for e i = (inv_email i = e \<and> inv_status i = Pending)"

text \<open>
  \<^verbatim>\<open>.from('workspace_members').insert([row])\<close>. The table's primary key is
  (workspace_id, user_id), as the schema notes of the repository record it.
\<close>

definition insert_member :: "pg_error option \<Rightarrow> member_row \<Rightarrow> backend \<Rightarrow> pg_error option \<times> backend" where
  "insert_member fault row b =
     (case fault of
        Some e \<Rightarrow> (Some e, b)
      | None \<Rightarrow>
          if filter (member_key (mem_workspace_id row) (mem_user_id row)) (workspace_members b) \<noteq> []
          then (Some DuplicateKeyValue, b)
          else (None, b\<lparr>workspace_members := workspace_members b @ [row]\<rparr>))"

text \<open>\<^verbatim>\<open>.from('workspace_invitations').update(vals).eq(...).eq(...)\<close>: every matching row is changed.\<close>

definition update_invitations ::
  "pg_error option \<Rightarrow> (invitation_row \<Rightarrow> bool) \<Rightarrow> (invitation_row \<Rightarrow> invitation_row) \<Rightarrow> backend
     \<Rightarrow> pg_error option \<times> backend" where
  "update_invitations fault sel upd b =
     (case fault of
        Some e \<Rightarrow> (Some e, b)
      | None \<Rightarrow> (None, b\<lparr>workspace_invitations :=
                 map (\<lambda>i. if sel i then upd i else i) (workspace_invitations b)\<rparr>))"

definition mark_accepted :: "nat \<Rightarrow> invitation_row \<Rightarrow> invitation_row" where
  "mark_accepted now i = i\<lparr>inv_status := Accepted, inv_accepted_at := Some now\<rparr>"

text \<open>
  \<^verbatim>\<open>auth.admin.getUserById(userId)\<close>: the provider answers an id that it does not know
  with an error, not with an empty user.
\<close>

definition getUserById :: "pg_error option \<Rightarrow> string \<Rightarrow> backend \<Rightarrow> auth_user option \<times> pg_error option" where
  "getUserById fault uid b =
     (case fault of
        Some e \<Rightarrow> (None, Some e)
      | None \<Rightarrow>
          (case List.find (\<lambda>u. au_id u = uid) (auth_users b) of
             None \<Rightarrow> (None, Some UserNotFound)
           | Some user \<Rightarrow> (Some user, None)))"

section \<open>HTTP responses\<close>

record response =
  status_code :: nat
  success :: bool
  text_of :: string

definition json :: "nat \<Rightarrow> bool \<Rightarrow> string \<Rightarrow> response" where
  "json c s t = \<lparr>status_code = c, success = s, text_of = t\<rparr>"

section \<open>Confirmation Reconciler: POST /api/auth/confirm-email\<close>

record confirm_env =
  service_role_key :: string
  get_user_fault :: "pg_error option"
  invite_select_fault :: "pg_error option"
  member_insert_fault :: "pg_error option"
  invite_update_fault :: "pg_error option"
  confirm_now :: nat

record confirm_body =
  cb_email :: "string option"
  cb_userId :: "string option"

definition NotYetConfirmed :: response where
  "NotYetConfirmed = json 400 False ''Email not confirmed yet''"

definition NoPendingInvitation :: response where
  "NoPendingInvitation = json 404 False ''No pending invitation found''"

definition FailedToAddUser :: response where
  "FailedToAddUser = json 500 False ''Failed to add user to workspace''"

definition UserAdded :: response where
  "UserAdded = json 200 True ''User added to workspace successfully''"

text \<open>
  The part of the handler after the user is known to be confirmed: the lookup of the
  pending invitation by email, the insert of the membership, the update of the ledger.
\<close>

definition add_membership :: "confirm_env \<Rightarrow> string \<Rightarrow> string \<Rightarrow> backend \<Rightarrow> response \<times> backend" where
  "add_membership env email userId b =
     (case fst (single_row (invite_select_fault env)
                  (filter (pending_for email) (workspace_invitations b))) of
        None \<Rightarrow> (NoPendingInvitation, b)
      | Some inviteData \<Rightarrow>
          (case insert_member (member_insert_fault env)
                  \<lparr>mem_workspace_id = inv_workspace_id inviteData,
                   mem_user_id = userId,
                   mem_role = or_default (Some (inv_role inviteData)) ''member''\<rparr> b of
             (Some memberError, b') \<Rightarrow> (FailedToAddUser, b')
           | (None, b') \<Rightarrow>
               (UserAdded,
                snd (update_invitations (invite_update_fault env)
                       (invitation_key (inv_workspace_id inviteData) email)
                       (mark_accepted (confirm_now env)) b'))))"

text \<open>The request is \<open>None\<close> when its body is not JSON: \<^verbatim>\<open>request.json()\<close> throws.\<close>

definition POST_confirm_email :: "confirm_env \<Rightarrow> confirm_body option \<Rightarrow> backend \<Rightarrow> response \<times> backend" where
  "POST_confirm_email env request b =
     (if service_role_key env = [] then (json 500 False ''Service role key not configured'', b)
      else case request of
        None \<Rightarrow> (json 500 False ''Failed to process workspace membership'', b)
      | Some body \<Rightarrow>
          if \<not> (truthy (cb_email body) \<and> truthy (cb_userId body))
          then (json 400 False ''Missing required fields'', b)
          else
            (case getUserById (get_user_fault env) (or_default (cb_userId body) []) b of
               (_, Some userError) \<Rightarrow> (json 500 False ''Failed to get user'', b)
             | (None, None) \<Rightarrow> (json 404 False ''User not found'', b)
             | (Some user, None) \<Rightarrow>
                 (case email_confirmed_at user of
                    None \<Rightarrow> (NotYetConfirmed, b)
                  | Some t \<Rightarrow>
                      add_membership env (or_default (cb_email body) [])
                        (or_default (cb_userId body) []) b)))"

section \<open>The acceptance deep link\<close>

text \<open>
  A string of the program is modelled by its UTF-8 bytes. \<^verbatim>\<open>encodeURIComponent\<close>
  keeps the unreserved characters and writes every other byte as \<^verbatim>\<open>%XX\<close> with
  upper-case hex digits.
\<close>

definition unreserved_chars :: string where
  "unreserved_chars =
     ''ABCDEFGHIJKLMNOPQRSTUVWXYZabcdefghijklmnopqrstuvwxyz0123456789-_.!~*()'' @ [CHR 0x27]"

definition unreserved :: "char \<Rightarrow> bool" where
  "unreserved c = (c \<in> set unreserved_chars)"

definition hex_digit :: "nat \<Rightarrow> char" where
  "hex_digit k = ''0123456789ABCDEF'' ! k"

definition percent_encode :: "char \<Rightarrow> string" where
  "percent_encode c =
     (if unreserved c then [c]
      else [CHR ''%'', hex_digit (of_char c div 16), hex_digit (of_char c mod 16)])"

definition encodeURIComponent :: "string \<Rightarrow> string" where
  "encodeURIComponent s = concat (map percent_encode s)"

text \<open>The characters that \<^verbatim>\<open>encodeURIComponent\<close> can write.\<close>

definition plain :: "char \<Rightarrow> bool" where
  "plain c = (unreserved c \<or> c = CHR ''%'')"

text \<open>
  Where the text of a value is used, and not only its truthiness, a missing key
  (\<open>undefined\<close>) and a JSON \<open>null\<close> differ: each prints as its own word, in a
  template literal and as the argument of \<^verbatim>\<open>encodeURIComponent\<close>.
\<close>

datatype js_string = Undefined | Null | Str string

definition template :: "js_string \<Rightarrow> string" where
  "template v = (case v of Undefined \<Rightarrow> ''undefined'' | Null \<Rightarrow> ''null'' | Str s \<Rightarrow> s)"

definition optional :: "string option \<Rightarrow> js_string" where
  "optional v = (case v of None \<Rightarrow> Undefined | Some s \<Rightarrow> Str s)"

definition invitation_query :: "string \<Rightarrow> string \<Rightarrow> string option \<Rightarrow> js_string \<Rightarrow> string" where
  "invitation_query email workspaceId role workspaceName =
     ''email='' @ encodeURIComponent email @
     ''&workspace_id='' @ workspaceId @
     ''&invite_role='' @ or_default role ''member'' @
     ''&workspace_name='' @ encodeURIComponent (template workspaceName)"

definition targetLink :: "string option \<Rightarrow> string \<Rightarrow> string \<Rightarrow> string option \<Rightarrow> js_string \<Rightarrow> string" where
  "targetLink base email workspaceId role workspaceName =
     or_default base ''http://localhost:3000'' @ ''/auth/accept-invitation?'' @
     invitation_query email workspaceId role workspaceName"

section \<open>Mail dispatch: POST /api/send-invitation-email\<close>

record mail_request =
  mr_email :: "string option"
  mr_workspaceId :: "string option"
  mr_role :: "string option"
  mr_workspaceName :: js_string
  mr_existingUser :: bool
  mr_targetLink :: "string option"

definition ok :: "response \<Rightarrow> bool" where
  "ok r = (200 \<le> status_code r \<and> status_code r \<le> 299)"

text \<open>
  \<open>sendgrid\<close> is what the call of the mail service gives: \<open>None\<close> when the call
  throws, \<open>Some ok\<close> when it answers.
\<close>

definition POST_send_invitation_email ::
  "bool option \<Rightarrow> string option \<Rightarrow> mail_request option \<Rightarrow> backend \<Rightarrow> response \<times> backend" where
  "POST_send_invitation_email sendgrid base request b =
     (case request of
        None \<Rightarrow> (json 500 False ''Failed to send invitation email'', b)
      | Some r \<Rightarrow>
          if \<not> (truthy (mr_email r) \<and> truthy (mr_workspaceId r))
          then (json 400 False ''Missing required fields'', b)
          else
            (let email = or_default (mr_email r) [];
                 invitationLink =
                   (if truthy (mr_targetLink r) then or_default (mr_targetLink r) []
                    else targetLink base email (or_default (mr_workspaceId r) [])
                           (mr_role r) (mr_workspaceName r))
             in case sendgrid of
                  None \<Rightarrow> (json 500 False ''Failed to send invitation email'', b)
                | Some False \<Rightarrow> (json 500 False ''Failed to send invitation email'', b)
                | Some True \<Rightarrow>
                    (json 200 True (''Invitation sent to '' @ email),
                     b\<lparr>sent_mail := sent_mail b @ [\<lparr>mail_to = email, mail_link = invitationLink\<rparr>]\<rparr>)))"

section \<open>Invitation Issuer: POST /api/invitations/create\<close>

record session_user =
  su_id :: string
  su_email :: string

record create_body =
  b_email :: "string option"
  b_workspaceId :: "string option"
  b_role :: "string option"
  b_workspaceName :: js_string

text \<open>
  What the handler gets from outside the tables: the session of the caller, the
  configured base URL, whether the ledger has a unique key on (workspace_id, email)
  (the handler expects duplicate-key errors from its insert), what the
  \<^verbatim>\<open>check_user_exists\<close> procedure answered (\<^verbatim>\<open>!!existingUser\<close>), a fault for
  every call of the store, and the outcome of the two HTTP calls for the mail.
\<close>

record create_env =
  ce_session_error :: bool
  ce_session_user :: "session_user option"
  ce_base_url :: "string option"
  ce_unique_key :: bool
  ce_role_select_fault :: "pg_error option"
  ce_membership_select_fault :: "pg_error option"
  ce_existingUser :: bool
  ce_invite_check_fault :: "pg_error option"
  ce_invite_update_fault :: "pg_error option"
  ce_invite_insert_fault :: "pg_error option"
  ce_create_table_fault :: "pg_error option"
  ce_retry_insert_fault :: "pg_error option"
  ce_mail_fetch_throws :: bool
  ce_sendgrid :: "bool option"

definition Forbidden :: response where
  "Forbidden = json 403 False ''Not authorized to invite members to this workspace''"

definition MissingFields :: response where
  "MissingFields = json 400 False ''Missing required fields''"

definition MailDeliveryError :: response where
  "MailDeliveryError = json 500 False ''Failed to send invitation email''"

definition InvitationSent :: "string \<Rightarrow> response" where
  "InvitationSent email = json 200 True (''Invitation sent to '' @ email)"

text \<open>The id that the store gives a new ledger row.\<close>

definition fresh_id :: "invitation_row list \<Rightarrow> nat" where
  "fresh_id rows = Suc (fold max (map inv_id rows) 0)"

definition new_invitation :: "nat \<Rightarrow> string \<Rightarrow> string \<Rightarrow> string option \<Rightarrow> string \<Rightarrow> invitation_row" where
  "new_invitation n w e role inviter =
     \<lparr>inv_id = n, inv_workspace_id = w, inv_email = e, inv_role = or_default role ''member'',
      inv_status = Pending, inv_invited_by = inviter, inv_accepted_at = None\<rparr>"

definition insert_invitation ::
  "bool \<Rightarrow> pg_error option \<Rightarrow> string \<Rightarrow> string \<Rightarrow> string option \<Rightarrow> string \<Rightarrow> backend
     \<Rightarrow> pg_error option \<times> backend" where
  "insert_invitation uniq fault w e role inviter b =
     (case fault of
        Some err \<Rightarrow> (Some err, b)
      | None \<Rightarrow>
          if uniq \<and> filter (invitation_key w e) (workspace_invitations b) \<noteq> []
          then (Some DuplicateKeyValue, b)
          else (None, b\<lparr>workspace_invitations := workspace_invitations b @
                  [new_invitation (fresh_id (workspace_invitations b)) w e role inviter]\<rparr>))"

definition reinvite :: "string option \<Rightarrow> string \<Rightarrow> invitation_row \<Rightarrow> invitation_row" where
  "reinvite role inviter i =
     i\<lparr>inv_role := or_default role ''member'', inv_status := Pending, inv_invited_by := inviter\<rparr>"

text \<open>
  The ledger write of the authenticated path: \<open>Some r\<close> in the first component when
  the handler returns \<open>r\<close> at once.
\<close>

definition upsert_invitation ::
  "create_env \<Rightarrow> string \<Rightarrow> string \<Rightarrow> string option \<Rightarrow> string \<Rightarrow> backend \<Rightarrow> response option \<times> backend" where
  "upsert_invitation env w e role inviter b =
     (case fst (single_row (ce_invite_check_fault env)
                  (filter (invitation_key w e) (workspace_invitations b))) of
        Some existingInvitation \<Rightarrow>
          (None, snd (update_invitations (ce_invite_update_fault env) (invitation_key w e)
                        (reinvite role inviter) b))
      | None \<Rightarrow>
          (case insert_invitation (ce_unique_key env) (ce_invite_insert_fault env) w e role inviter b of
             (None, b') \<Rightarrow> (None, b')
           | (Some inviteError, b') \<Rightarrow>
               if inviteError = DuplicateKeyValue then (None, b')
               else (Some (json 500 False ''Failed to create invitation record''), b')))"

text \<open>The ledger write of the path taken without a session, which may create the table.\<close>

definition upsert_invitation_bypass ::
  "create_env \<Rightarrow> string \<Rightarrow> string \<Rightarrow> string option \<Rightarrow> string \<Rightarrow> backend \<Rightarrow> response option \<times> backend" where
  "upsert_invitation_bypass env w e role inviter b =
     (case fst (single_row (ce_invite_check_fault env)
                  (filter (invitation_key w e) (workspace_invitations b))) of
        Some existingInvitation \<Rightarrow>
          (None, snd (update_invitations (ce_invite_update_fault env) (invitation_key w e)
                        (reinvite role inviter) b))
      | None \<Rightarrow>
          (case insert_invitation (ce_unique_key env) (ce_invite_insert_fault env) w e role inviter b of
             (None, b') \<Rightarrow> (None, b')
           | (Some inviteError, b') \<Rightarrow>
               if inviteError = RelationDoesNotExist then
                 (case ce_create_table_fault env of
                    Some createTableError \<Rightarrow>
                      (Some (json 500 False ''Failed to create invitation table''), b')
                  | None \<Rightarrow>
                      (None, snd (insert_invitation (ce_unique_key env) (ce_retry_insert_fault env)
                                    w e role inviter b')))
               else if inviteError = DuplicateKeyValue then (None, b')
               else (Some (json 500 False ''Failed to create invitation record''), b')))"

text \<open>The link, the call of the mail route and the answer to the inviter.\<close>

definition send_invitation ::
  "create_env \<Rightarrow> create_body \<Rightarrow> string \<Rightarrow> string \<Rightarrow> backend \<Rightarrow> response \<times> backend" where
  "send_invitation env body email w b =
     (if ce_mail_fetch_throws env then (json 500 False ''Failed to create invitation'', b)
      else
        (case POST_send_invitation_email (ce_sendgrid env) (ce_base_url env)
                (Some \<lparr>mr_email = Some email, mr_workspaceId = Some w,
                       mr_role = Some (or_default (b_role body) ''member''),
                       mr_workspaceName = b_workspaceName body,
                       mr_existingUser = ce_existingUser env,
                       mr_targetLink = Some (targetLink (ce_base_url env) email w (b_role body)
                                               (b_workspaceName body))\<rparr>) b of
           (emailResponse, b') \<Rightarrow>
             if ok emailResponse then (InvitationSent email, b') else (MailDeliveryError, b')))"

text \<open>
  The inviter may invite when the global role is superadmin, or else when the single
  membership row for the workspace has role admin or owner.
\<close>

definition isSuperadmin :: "create_env \<Rightarrow> session_user \<Rightarrow> backend \<Rightarrow> bool" where
  "isSuperadmin env user b =
     (case fst (single_row (ce_role_select_fault env)
                  (filter (\<lambda>r. ur_user_id r = su_id user) (user_roles b))) of
        None \<Rightarrow> False
      | Some roleData \<Rightarrow> ur_role roleData = ''superadmin'')"

definition may_invite :: "create_env \<Rightarrow> session_user \<Rightarrow> string \<Rightarrow> backend \<Rightarrow> bool" where
  "may_invite env user w b =
     (if isSuperadmin env user b then True
      else case fst (single_row (ce_membership_select_fault env)
                       (filter (member_key w (su_id user)) (workspace_members b))) of
             None \<Rightarrow> False
           | Some membership \<Rightarrow> mem_role membership \<in> set [''admin'', ''owner''])"

text \<open>
  The caller that the handler sees, and whether it lets the call through to the ledger
  write: with no session it does (as the built-in user), with a session when the user may
  invite.
\<close>

definition caller :: "create_env \<Rightarrow> session_user option" where
  "caller env = (if ce_session_error env then None else ce_session_user env)"

definition admitted :: "create_env \<Rightarrow> string \<Rightarrow> backend \<Rightarrow> bool" where
  "admitted env w b =
     (case caller env of None \<Rightarrow> True | Some user \<Rightarrow> may_invite env user w b)"

definition mockUser_id :: string where
  "mockUser_id = ''b2587e5a-e91c-4111-a6e2-d5705505e7c3''"

definition POST_invitations_create :: "create_env \<Rightarrow> create_body option \<Rightarrow> backend \<Rightarrow> response \<times> backend" where
  "POST_invitations_create env request b =
     (case request of
        None \<Rightarrow> (json 500 False ''Failed to create invitation'', b)
      | Some body \<Rightarrow>
          if \<not> (truthy (b_email body) \<and> truthy (b_workspaceId body)) then (MissingFields, b)
          else
            (let email = or_default (b_email body) [];
                 workspaceId = or_default (b_workspaceId body) []
             in case (if ce_session_error env then None else ce_session_user env) of
                  None \<Rightarrow>
                    (case upsert_invitation_bypass env workspaceId email (b_role body) mockUser_id b of
                       (Some r, b') \<Rightarrow> (r, b')
                     | (None, b') \<Rightarrow> send_invitation env body email workspaceId b')
                | Some user \<Rightarrow>
                    if \<not> may_invite env user workspaceId b then (Forbidden, b)
                    else
                      (case upsert_invitation env workspaceId email (b_role body) (su_id user) b of
                         (Some r, b') \<Rightarrow> (r, b')
                       | (None, b') \<Rightarrow> send_invitation env body email workspaceId b')))"

section \<open>Reading a query string\<close>

text \<open>
  The pages read the link with \<^verbatim>\<open>URLSearchParams\<close>: the query is cut at every
  \<^verbatim>\<open>&\<close>, each non-empty piece at its first \<^verbatim>\<open>=\<close>, a \<^verbatim>\<open>+\<close> becomes a space, and
  \<^verbatim>\<open>%XX\<close> becomes the byte it writes. \<open>get\<close> gives the first value of a name.
  The decoder of the browser replaces bytes that are not UTF-8 by U+FFFD; the model keeps
  them, so it is the browser's decoder on the bytes of well-formed strings only, which
  is what \<^verbatim>\<open>encodeURIComponent\<close> writes.
\<close>

fun split_on :: "char \<Rightarrow> string \<Rightarrow> string list" where
  "split_on d [] = [[]]"
| "split_on d (c # cs) =
     (if c = d then [] # split_on d cs
      else (case split_on d cs of [] \<Rightarrow> [[c]] | x # xs \<Rightarrow> (c # x) # xs))"

definition hex_val :: "char \<Rightarrow> nat option" where
  "hex_val c =
     (let n = (of_char c :: nat)
      in if 48 \<le> n \<and> n \<le> 57 then Some (n - 48)
         else if 65 \<le> n \<and> n \<le> 70 then Some (n - 55)
         else if 97 \<le> n \<and> n \<le> 102 then Some (n - 87)
         else None)"

fun percent_decode :: "string \<Rightarrow> string" where
  "percent_decode (c # h1 # h2 # cs) =
     (if c = CHR ''%'' then
        (case (hex_val h1, hex_val h2) of
           (Some a, Some b) \<Rightarrow> char_of (16 * a + b) # percent_decode cs
         | _ \<Rightarrow> c # percent_decode (h1 # h2 # cs))
      else c # percent_decode (h1 # h2 # cs))"
| "percent_decode cs = cs"

definition plus_to_space :: "string \<Rightarrow> string" where
  "plus_to_space s = map (\<lambda>c. if c = CHR ''+'' then CHR '' '' else c) s"

definition form_decode :: "string \<Rightarrow> string" where
  "form_decode s = percent_decode (plus_to_space s)"

definition parse_pair :: "string \<Rightarrow> string \<times> string" where
  "parse_pair piece =
     (form_decode (takeWhile (\<lambda>c. c \<noteq> CHR ''='') piece),
      form_decode (drop 1 (dropWhile (\<lambda>c. c \<noteq> CHR ''='') piece)))"

definition parse_query :: "string \<Rightarrow> (string \<times> string) list" where
  "parse_query q = map parse_pair (filter (\<lambda>piece. piece \<noteq> []) (split_on CHR ''&'' q))"

definition get_param :: "string \<Rightarrow> string \<Rightarrow> string option" where
  "get_param q name = map_of (parse_query q) name"

text \<open>
  The query of a URL: the fragment is cut off at the first \<^verbatim>\<open>#\<close>, and the query is
  what follows the first \<^verbatim>\<open>?\<close>.
\<close>

definition url_search :: "string \<Rightarrow> string" where
  "url_search url =
     drop 1 (dropWhile (\<lambda>c. c \<noteq> CHR ''?'') (takeWhile (\<lambda>c. c \<noteq> CHR ''#'') url))"

section \<open>Client-held intent: localStorage\<close>

type_synonym storage = "string \<Rightarrow> string option"

definition removeItems :: "string list \<Rightarrow> storage \<Rightarrow> storage" where
  "removeItems ks ls = fold (\<lambda>k s. s(k := None)) ks ls"

definition invitation_flags :: "string list" where
  "invitation_flags =
     [''process_pending_invitation'', ''pending_workspace_id'',
      ''pending_invitation_workspace_id'', ''pending_invite_role'',
      ''pending_invitation_role'']"

definition confirmation_data :: "string list" where
  "confirmation_data =
     [''pending_confirmation_user_id'', ''pending_confirmation_email'',
      ''pending_confirmation_workspace_id'']"

definition set_if :: "string \<Rightarrow> string option \<Rightarrow> storage \<Rightarrow> storage" where
  "set_if k v ls = (if truthy v then ls(k := v) else ls)"

section \<open>Admin action: cancelling an invitation (members page)\<close>

definition mark_cancelled :: "invitation_row \<Rightarrow> invitation_row" where
  "mark_cancelled i = i\<lparr>inv_status := Cancelled\<rparr>"

definition handleCancelInvitation :: "pg_error option \<Rightarrow> nat \<Rightarrow> backend \<Rightarrow> bool \<times> backend" where
  "handleCancelInvitation fault invitationId b =
     (case update_invitations fault (\<lambda>i. inv_id i = invitationId) mark_cancelled b of
        (Some e, b') \<Rightarrow> (False, b')
      | (None, b') \<Rightarrow> (True, b'))"

section \<open>Registration/Acceptance Handler: the accept-invitation page\<close>

record invitation_data =
  d_email :: string
  d_workspaceId :: string
  d_inviteRole :: string
  d_workspaceName :: string

text \<open>The effect that reads the link: \<open>None\<close> is the invalid-link error.\<close>

definition AcceptInvitation_load :: "string \<Rightarrow> invitation_data option" where
  "AcceptInvitation_load search =
     (if truthy (get_param search ''email'') \<and> truthy (get_param search ''workspace_id'')
      then Some \<lparr>d_email = or_default (get_param search ''email'') [],
                 d_workspaceId = or_default (get_param search ''workspace_id'') [],
                 d_inviteRole = or_default (get_param search ''invite_role'') ''member'',
                 d_workspaceName = or_default (get_param search ''workspace_name'') ''Workspace''\<rparr>
      else None)"

record accept_values =
  av_email :: string
  av_password :: string
  av_confirmPassword :: string

text \<open>
  \<open>ae_signUp\<close> is what the identity provider answers to \<^verbatim>\<open>supabase.auth.signUp\<close>: an
  error message, or the data with its user (the user carries its confirmation time, if the
  provider confirmed the email at once).
\<close>

record accept_env =
  ae_signUp :: "string + auth_user option"
  ae_now :: nat
  ae_invite_update_fault :: "pg_error option"

text \<open>
  A user that the provider reports is in the provider's table afterwards, where
  \<open>getUserById\<close> looks it up; an account that is there already is left as it is.
\<close>

definition signUp :: "accept_env \<Rightarrow> backend \<Rightarrow> (string + auth_user option) \<times> backend" where
  "signUp env b =
     (case ae_signUp env of
        Inl msg \<Rightarrow> (Inl msg, b)
      | Inr None \<Rightarrow> (Inr None, b)
      | Inr (Some u) \<Rightarrow>
          (Inr (Some u),
           (case List.find (\<lambda>x. au_id x = au_id u) (auth_users b) of
              None \<Rightarrow> b\<lparr>auth_users := auth_users b @ [u]\<rparr>
            | Some x \<Rightarrow> b)))"

datatype ui = ShowError string | ShowSuccess

definition AcceptInvitation_onFinish ::
  "accept_env \<Rightarrow> invitation_data option \<Rightarrow> accept_values \<Rightarrow> backend \<Rightarrow> storage
     \<Rightarrow> ui \<times> backend \<times> storage" where
  "AcceptInvitation_onFinish env invitationData values b ls =
     (case invitationData of
        None \<Rightarrow> (ShowError ''Invalid invitation data'', b, ls)
      | Some d \<Rightarrow>
          if av_password values \<noteq> av_confirmPassword values
          then (ShowError ''Passwords do not match'', b, ls)
          else
            (case signUp env b of
               (Inl msg, b') \<Rightarrow> (ShowError (or_default (Some msg) ''Failed to accept invitation''), b', ls)
             | (Inr user, b') \<Rightarrow>
                 (ShowSuccess,
                  snd (update_invitations (ae_invite_update_fault env)
                         (invitation_key (d_workspaceId d) (av_email values))
                         (mark_accepted (ae_now env)) b'),
                  (case user of
                     None \<Rightarrow> ls
                   | Some u \<Rightarrow>
                       ls(''pending_confirmation_user_id'' \<mapsto> au_id u,
                          ''pending_confirmation_workspace_id'' \<mapsto> d_workspaceId d,
                          ''pending_confirmation_email'' \<mapsto> av_email values)))))"

definition accept_backend :: "ui \<times> backend \<times> storage \<Rightarrow> backend" where
  "accept_backend r = fst (snd r)"

section \<open>The registration page: storing the link's parameters\<close>

definition RegisterPage_load :: "string \<Rightarrow> storage \<Rightarrow> storage" where
  "RegisterPage_load search ls =
     ((set_if ''pending_invitation_workspace_name'' (get_param search ''workspace_name'')
        (set_if ''pending_invitation_role'' (get_param search ''invite_role'')
          (set_if ''pending_invitation_workspace_id'' (get_param search ''workspace_id'')
            (set_if ''pending_invitation_email'' (get_param search ''email'')
              (ls(''is_registration_page'' \<mapsto> ''true''))))))
      (''process_pending_invitation'' \<mapsto> ''true''))"

section \<open>Session-Login Invitation Sweep\<close>

subsection \<open>AuthContext: processPendingInvitations and signIn\<close>

text \<open>
  \<open>sw_search\<close> is the query of the page's URL, \<open>sw_user_email\<close> the email of the
  context's \<open>user\<close> state when the function runs (\<open>None\<close>: no user in the state).
  The function is modelled where \<open>signIn\<close> calls it; the listener for changes of the
  auth state calls it as well, at a time of its own, and is not part of the model.
\<close>

record sweep_env =
  sw_search :: string
  sw_user_email :: "string option"
  sw_member_check_fault :: "pg_error option"
  sw_member_insert_fault :: "pg_error option"
  sw_invite_update_fault :: "pg_error option"
  sw_now :: nat

definition store_url_invitation :: "string \<Rightarrow> storage \<Rightarrow> storage" where
  "store_url_invitation search ls =
     (if get_param search ''invitation'' = Some ''true'' \<and> truthy (get_param search ''workspace_id'')
      then set_if ''pending_invite_role'' (get_param search ''invite_role'')
             (ls(''process_pending_invitation'' \<mapsto> ''true'',
                 ''pending_workspace_id'' \<mapsto> or_default (get_param search ''workspace_id'') []))
      else ls)"

definition processPendingInvitations ::
  "sweep_env \<Rightarrow> string \<Rightarrow> backend \<Rightarrow> storage \<Rightarrow> bool \<times> backend \<times> storage" where
  "processPendingInvitations env userId b ls0 =
     (let shouldProcessInvitation = (ls0 ''process_pending_invitation'' = Some ''true'');
          urlInvitation = (get_param (sw_search env) ''invitation'' = Some ''true'');
          ls = store_url_invitation (sw_search env) ls0
      in if \<not> (shouldProcessInvitation \<or> urlInvitation) then (False, b, ls)
         else
           (let workspaceId = js_or (js_or (get_param (sw_search env) ''workspace_id'')
                                          (ls ''pending_workspace_id''))
                                    (ls ''pending_invitation_workspace_id'');
                inviteRole = or_default (get_param (sw_search env) ''invite_role'') ''member''
            in if \<not> truthy workspaceId then (False, b, ls)
               else
                 (case fst (single_row (sw_member_check_fault env)
                              (filter (member_key (or_default workspaceId []) userId)
                                 (workspace_members b))) of
                    Some existingMember \<Rightarrow> (True, b, removeItems invitation_flags ls)
                  | None \<Rightarrow>
                      (case insert_member (sw_member_insert_fault env)
                              \<lparr>mem_workspace_id = or_default workspaceId [],
                               mem_user_id = userId, mem_role = inviteRole\<rparr> b of
                         (Some memberError, b') \<Rightarrow> (False, b', ls)
                       | (None, b') \<Rightarrow>
                           (True,
                            snd (update_invitations (sw_invite_update_fault env)
                                   (invitation_key (or_default workspaceId [])
                                      (template (optional (sw_user_email env))))
                                   (mark_accepted (sw_now env)) b'),
                            removeItems invitation_flags ls)))))"

text \<open>
  \<open>signedIn\<close> is what the identity provider answers to the password sign-in: the
  user, or \<open>None\<close> for an error. The result is the error flag of \<open>signIn\<close>.
\<close>

definition signIn ::
  "sweep_env \<Rightarrow> auth_user option \<Rightarrow> backend \<Rightarrow> storage \<Rightarrow> bool \<times> backend \<times> storage" where
  "signIn env signedIn b ls =
     (case signedIn of
        None \<Rightarrow> (True, b, ls)
      | Some user \<Rightarrow>
          (case processPendingInvitations env (au_id user) b ls of
             (processed, b', ls') \<Rightarrow> (False, b', ls')))"

subsection \<open>The login page\<close>

record login_env =
  li_signedIn :: "auth_user option"
  li_sweep :: sweep_env
  li_getUser :: "auth_user option"
  li_confirm_fetch_throws :: bool
  li_confirm :: confirm_env
  li_member_check_fault :: "pg_error option"
  li_member_insert_fault :: "pg_error option"
  li_invite_update_fault :: "pg_error option"
  li_now :: nat

datatype login_ui = LoginError string | ToDashboard

text \<open>What the handler did about the carried intent.\<close>

datatype sweep_trace =
    NoSweep
  | NoUser
  | ConfirmEmailCall response
  | ConfirmEmailThrew
  | RegularSweep

text \<open>The regular branch: the membership check, the insert and the ledger update.\<close>

definition regular_invitation ::
  "login_env \<Rightarrow> string \<Rightarrow> string \<Rightarrow> auth_user \<Rightarrow> backend \<Rightarrow> backend" where
  "regular_invitation env workspaceId inviteRole user b =
     (case fst (single_row (li_member_check_fault env)
                  (filter (member_key workspaceId (au_id user)) (workspace_members b))) of
        Some existingMember \<Rightarrow> b
      | None \<Rightarrow>
          (case insert_member (li_member_insert_fault env)
                  \<lparr>mem_workspace_id = workspaceId, mem_user_id = au_id user,
                   mem_role = inviteRole\<rparr> b of
             (Some memberError, b') \<Rightarrow> b'
           | (None, b') \<Rightarrow>
               snd (update_invitations (li_invite_update_fault env)
                      (invitation_key workspaceId (au_email user))
                      (mark_accepted (li_now env)) b')))"

definition LoginPage_load :: "string \<Rightarrow> storage \<Rightarrow> storage" where
  "LoginPage_load search ls = store_url_invitation search ls"

definition LoginPage_onFinish ::
  "login_env \<Rightarrow> string \<Rightarrow> backend \<Rightarrow> storage \<Rightarrow> login_ui \<times> sweep_trace \<times> backend \<times> storage" where
  "LoginPage_onFinish env email b0 ls0 =
     (case signIn (li_sweep env) (li_signedIn env) b0 ls0 of
        (True, b, ls) \<Rightarrow> (LoginError ''Invalid email or password'', NoSweep, b, ls)
      | (False, b, ls) \<Rightarrow>
          (let inviteRole = or_default (js_or (ls ''pending_invite_role'')
                                              (ls ''pending_invitation_role'')) ''member'';
               pendingConfirmationUserId = ls ''pending_confirmation_user_id'';
               pendingConfirmationEmail = ls ''pending_confirmation_email'';
               pendingConfirmationWorkspaceId = ls ''pending_confirmation_workspace_id'';
               found = (pendingConfirmationEmail = Some email
                          \<and> truthy pendingConfirmationWorkspaceId);
               shouldProcessInvitation =
                 (if found then True else ls ''process_pending_invitation'' = Some ''true'');
               workspaceId =
                 (if found then pendingConfirmationWorkspaceId
                  else js_or (ls ''pending_workspace_id'') (ls ''pending_invitation_workspace_id''))
           in if shouldProcessInvitation \<and> truthy workspaceId then
                (case li_getUser env of
                   None \<Rightarrow> (ToDashboard, NoUser, b, ls)
                 | Some user \<Rightarrow>
                     if truthy pendingConfirmationUserId \<and> pendingConfirmationEmail = Some email
                     then
                       (if li_confirm_fetch_throws env
                        then (LoginError ''An error occurred during login'', ConfirmEmailThrew, b, ls)
                        else
                          (case POST_confirm_email (li_confirm env)
                                  (Some \<lparr>cb_email = Some email, cb_userId = Some (au_id user)\<rparr>) b of
                             (confirmResponse, b') \<Rightarrow>
                               (ToDashboard, ConfirmEmailCall confirmResponse, b',
                                removeItems (invitation_flags @ confirmation_data) ls)))
                     else
                       (ToDashboard, RegularSweep,
                        regular_invitation env (or_default workspaceId []) inviteRole user b,
                        removeItems (invitation_flags @ confirmation_data) ls))
              else (ToDashboard, NoSweep, b, ls)))"


definition login_backend :: "login_ui \<times> sweep_trace \<times> backend \<times> storage \<Rightarrow> backend" where
  "login_backend r = fst (snd (snd r))"


section \<open>Example data\<close>

definition no_confirm_faults :: confirm_env where
  "no_confirm_faults =
     \<lparr>service_role_key = ''service-key'', get_user_fault = None, invite_select_fault = None,
      member_insert_fault = None, invite_update_fault = None, confirm_now = 7\<rparr>"

definition alice :: auth_user where
  "alice = \<lparr>au_id = ''u1'', au_email = ''new@x.com'', email_confirmed_at = Some 5\<rparr>"

definition alice_unconfirmed :: auth_user where
  "alice_unconfirmed = alice\<lparr>email_confirmed_at := None\<rparr>"

definition invite_W :: invitation_row where
  "invite_W =
     \<lparr>inv_id = 1, inv_workspace_id = ''W'', inv_email = ''new@x.com'', inv_role = ''admin'',
      inv_status = Pending, inv_invited_by = ''root'', inv_accepted_at = None\<rparr>"

definition invite_V :: invitation_row where
  "invite_V = invite_W\<lparr>inv_id := 2, inv_workspace_id := ''V'', inv_role := ''member''\<rparr>"

definition empty_backend :: backend where
  "empty_backend =
     \<lparr>workspace_invitations = [], workspace_members = [], user_roles = [],
      auth_users = [], sent_mail = []\<rparr>"

definition confirm_request :: "confirm_body option" where
  "confirm_request = Some \<lparr>cb_email = Some ''new@x.com'', cb_userId = Some ''u1''\<rparr>"

definition update_fails :: confirm_env where
  "update_fails = no_confirm_faults\<lparr>invite_update_fault := Some OtherStoreError\<rparr>"

definition member_W :: member_row where
  "member_W = \<lparr>mem_workspace_id = ''W'', mem_user_id = ''u1'', mem_role = ''admin''\<rparr>"

definition invited_backend :: backend where
  "invited_backend = empty_backend\<lparr>workspace_invitations := [invite_W], auth_users := [alice]\<rparr>"

definition root_user :: session_user where
  "root_user = \<lparr>su_id = ''root'', su_email = ''root@x.com''\<rparr>"

definition issue_env :: create_env where
  "issue_env =
     \<lparr>ce_session_error = False, ce_session_user = Some root_user, ce_base_url = None,
      ce_unique_key = True, ce_role_select_fault = None, ce_membership_select_fault = None,
      ce_existingUser = False, ce_invite_check_fault = None, ce_invite_update_fault = None,
      ce_invite_insert_fault = None, ce_create_table_fault = None, ce_retry_insert_fault = None,
      ce_mail_fetch_throws = False, ce_sendgrid = Some True\<rparr>"

definition anonymous_env :: create_env where
  "anonymous_env = issue_env\<lparr>ce_session_user := None\<rparr>"

definition mail_down :: create_env where
  "mail_down = issue_env\<lparr>ce_sendgrid := Some False\<rparr>"

definition mail_throws :: create_env where
  "mail_throws = anonymous_env\<lparr>ce_mail_fetch_throws := True\<rparr>"

definition root_backend :: backend where
  "root_backend =
     empty_backend\<lparr>user_roles := [\<lparr>ur_user_id = ''root'', ur_role = ''superadmin''\<rparr>]\<rparr>"

definition invite_request :: "string \<Rightarrow> create_body" where
  "invite_request role =
     \<lparr>b_email = Some ''new@x.com'', b_workspaceId = Some ''W'', b_role = Some role,
      b_workspaceName = Str ''Acme''\<rparr>"

definition evil_request :: create_body where
  "evil_request = invite_request ''admin&workspace_name=Evil''"

definition quiet_sweep :: sweep_env where
  "quiet_sweep =
     \<lparr>sw_search = [], sw_user_email = None, sw_member_check_fault = None,
      sw_member_insert_fault = None, sw_invite_update_fault = None, sw_now = 9\<rparr>"

definition login_as :: "auth_user \<Rightarrow> login_env" where
  "login_as u =
     \<lparr>li_signedIn = Some u, li_sweep = quiet_sweep, li_getUser = Some u,
      li_confirm_fetch_throws = False, li_confirm = no_confirm_faults,
      li_member_check_fault = None, li_member_insert_fault = None,
      li_invite_update_fault = None, li_now = 9\<rparr>"

definition new_user :: auth_user where
  "new_user = \<lparr>au_id = ''u1'', au_email = ''new@x.com'', email_confirmed_at = Some 3\<rparr>"

definition new_account :: accept_env where
  "new_account =
     \<lparr>ae_signUp = Inr (Some alice_unconfirmed), ae_now = 3, ae_invite_update_fault = None\<rparr>"

definition autoconfirmed_account :: accept_env where
  "autoconfirmed_account = new_account\<lparr>ae_signUp := Inr (Some new_user)\<rparr>"

definition link_data :: invitation_data where
  "link_data =
     \<lparr>d_email = ''new@x.com'', d_workspaceId = ''W'', d_inviteRole = ''admin'',
      d_workspaceName = ''Acme''\<rparr>"

definition form_values :: accept_values where
  "form_values =
     \<lparr>av_email = ''new@x.com'', av_password = ''s3cret-pw'',
      av_confirmPassword = ''s3cret-pw''\<rparr>"

definition link_query :: string where
  "link_query = invitation_query ''new@x.com'' ''W'' (Some ''admin'') (Str ''Acme'')"


definition confirmation_storage :: storage where
  "confirmation_storage =
     Map.empty(''pending_confirmation_user_id'' \<mapsto> ''u1'',
               ''pending_confirmation_workspace_id'' \<mapsto> ''W'',
               ''pending_confirmation_email'' \<mapsto> ''new@x.com'')"


section \<open>The Confirmation Reconciler\<close>

lemma confirmed_user_step:
  assumes "service_role_key env \<noteq> []" and "email \<noteq> []" and "userId \<noteq> []"
    and "get_user_fault env = None"
    and "List.find (\<lambda>u. au_id u = userId) (auth_users b) = Some user"
    and "email_confirmed_at user = Some t"
  shows "POST_confirm_email env (Some \<lparr>cb_email = Some email, cb_userId = Some userId\<rparr>) b
           = add_membership env email userId b"
  using assms
  by (simp add: POST_confirm_email_def truthy_def or_default_def getUserById_def)

lemma add_membership_ambiguous:
  "2 \<le> length (filter (pending_for email) (workspace_invitations b)) \<Longrightarrow>
   add_membership env email userId b = (NoPendingInvitation, b)"
  by (cases "filter (pending_for email) (workspace_invitations b)")
     (auto simp: add_membership_def single_row_def split: option.splits list.splits)

lemma two_rows_in_filter:
  assumes "i1 \<in> set rows" and "i2 \<in> set rows" and "P i1" and "P i2" and "i1 \<noteq> i2"
  shows "2 \<le> length (filter P rows)"
proof -
  have "{i1, i2} \<subseteq> set (filter P rows)" using assms by simp
  then have "card {i1, i2} \<le> card (set (filter P rows))"
    by (intro card_mono) simp_all
  also have "\<dots> \<le> length (filter P rows)" by (rule card_length)
  finally show ?thesis using \<open>i1 \<noteq> i2\<close> by simp
qed

text \<open>
  Claim C6. When the identity of the user has no confirmation time, the confirm-email
  handler answers ``Email not confirmed yet'' (status 400) and hands back the backend as
  it was: no membership is created and no ledger row changes.
\<close>

theorem reconcile_not_yet_confirmed:
  assumes "service_role_key env \<noteq> []" and "email \<noteq> []" and "userId \<noteq> []"
    and "get_user_fault env = None"
    and "List.find (\<lambda>u. au_id u = userId) (auth_users b) = Some user"
    and "email_confirmed_at user = None"
  shows "POST_confirm_email env (Some \<lparr>cb_email = Some email, cb_userId = Some userId\<rparr>) b
           = (NotYetConfirmed, b)"
  using assms
  by (simp add: POST_confirm_email_def truthy_def or_default_def getUserById_def)

theorem reconcile_not_yet_confirmed_witness:
  "POST_confirm_email no_confirm_faults confirm_request
     (empty_backend\<lparr>workspace_invitations := [invite_W], auth_users := [alice_unconfirmed]\<rparr>)
   = (NotYetConfirmed,
      empty_backend\<lparr>workspace_invitations := [invite_W], auth_users := [alice_unconfirmed]\<rparr>)"
  unfolding confirm_request_def
  by (rule reconcile_not_yet_confirmed [where user = alice_unconfirmed])
     (simp_all add: no_confirm_faults_def empty_backend_def alice_unconfirmed_def alice_def)

text \<open>
  Claim C9. The handler looks the pending invitation up by email alone and asks for a
  single row. When the email has pending invitations in two workspaces, the lookup gives
  no row: the handler answers ``No pending invitation found'' and creates no membership,
  although the user is confirmed and each invitation is pending.
\<close>

theorem reconcile_ambiguous_email:
  assumes "i1 \<in> set (workspace_invitations b)" and "i2 \<in> set (workspace_invitations b)"
    and "pending_for email i1" and "pending_for email i2"
    and "inv_workspace_id i1 \<noteq> inv_workspace_id i2"
    and "service_role_key env \<noteq> []" and "email \<noteq> []" and "userId \<noteq> []"
    and "get_user_fault env = None"
    and "List.find (\<lambda>u. au_id u = userId) (auth_users b) = Some user"
    and "email_confirmed_at user = Some t"
  shows "POST_confirm_email env (Some \<lparr>cb_email = Some email, cb_userId = Some userId\<rparr>) b
           = (NoPendingInvitation, b)"
proof -
  have "i1 \<noteq> i2" using assms(5) by auto
  then have "2 \<le> length (filter (pending_for email) (workspace_invitations b))"
    using assms(1-4) by (intro two_rows_in_filter)
  then show ?thesis
    using assms(6-11) by (simp add: confirmed_user_step add_membership_ambiguous)
qed

theorem reconcile_ambiguous_email_witness:
  "POST_confirm_email no_confirm_faults confirm_request
     (empty_backend\<lparr>workspace_invitations := [invite_W, invite_V], auth_users := [alice]\<rparr>)
   = (NoPendingInvitation,
      empty_backend\<lparr>workspace_invitations := [invite_W, invite_V], auth_users := [alice]\<rparr>)"
  unfolding confirm_request_def
  by (rule reconcile_ambiguous_email
        [where ?i1.0 = invite_W and ?i2.0 = invite_V and user = alice and t = 5])
     (simp_all add: no_confirm_faults_def empty_backend_def alice_def invite_W_def
        invite_V_def pending_for_def)

text \<open>
  Claim C1. The handler inserts the membership without looking for an existing one. When
  the user is already a member of the invitation's workspace and the invitation is still
  pending, the insert breaks the primary key and the handler answers ``Failed to add
  user to workspace'' (status 500) instead of treating the membership as done; the ledger
  row stays pending. The example runs the handler twice, the store failing the ledger
  update of the first call (an error that the handler only logs).
\<close>

theorem reconcile_existing_member_fails:
  assumes "service_role_key env \<noteq> []" and "email \<noteq> []" and "userId \<noteq> []"
    and "get_user_fault env = None" and "invite_select_fault env = None"
    and "member_insert_fault env = None"
    and "List.find (\<lambda>u. au_id u = userId) (auth_users b) = Some user"
    and "email_confirmed_at user = Some t"
    and "filter (pending_for email) (workspace_invitations b) = [invite]"
    and "filter (member_key (inv_workspace_id invite) userId) (workspace_members b) \<noteq> []"
  shows "POST_confirm_email env (Some \<lparr>cb_email = Some email, cb_userId = Some userId\<rparr>) b
           = (FailedToAddUser, b)"
  using assms
  by (simp add: confirmed_user_step add_membership_def single_row_def insert_member_def)

theorem reconcile_existing_member_fails_witness:
  "POST_confirm_email update_fails confirm_request invited_backend
     = (UserAdded, invited_backend\<lparr>workspace_members := [member_W]\<rparr>) \<and>
   POST_confirm_email no_confirm_faults confirm_request
     (invited_backend\<lparr>workspace_members := [member_W]\<rparr>)
     = (FailedToAddUser, invited_backend\<lparr>workspace_members := [member_W]\<rparr>)"
proof
  show "POST_confirm_email update_fails confirm_request invited_backend
     = (UserAdded, invited_backend\<lparr>workspace_members := [member_W]\<rparr>)"
    by (simp add: POST_confirm_email_def add_membership_def update_fails_def no_confirm_faults_def
      confirm_request_def invited_backend_def empty_backend_def alice_def invite_W_def member_W_def
      truthy_def or_default_def getUserById_def single_row_def pending_for_def insert_member_def
      member_key_def update_invitations_def)
  show "POST_confirm_email no_confirm_faults confirm_request
     (invited_backend\<lparr>workspace_members := [member_W]\<rparr>)
     = (FailedToAddUser, invited_backend\<lparr>workspace_members := [member_W]\<rparr>)"
    unfolding confirm_request_def
    by (rule reconcile_existing_member_fails [where user = alice and t = 5 and invite = invite_W])
       (simp_all add: no_confirm_faults_def invited_backend_def empty_backend_def alice_def
          invite_W_def member_W_def pending_for_def member_key_def)
qed

section \<open>The Invitation Issuer\<close>

lemma filter_update_same:
  assumes "\<And>i. P i \<Longrightarrow> P (f i)"
  shows "filter P (map (\<lambda>i. if P i then f i else i) xs) = map f (filter P xs)"
  using assms by (induction xs) auto

lemma invitation_key_reinvite [simp]:
  "invitation_key w e (reinvite role inviter i) = invitation_key w e i"
  by (simp add: invitation_key_def reinvite_def)

lemma filter_reinvite:
  "filter (invitation_key w e)
     (map (\<lambda>i. if invitation_key w e i then reinvite role inviter i else i) xs)
   = map (reinvite role inviter) (filter (invitation_key w e) xs)"
  by (rule filter_update_same) simp

lemma reinvite_fields [simp]:
  "inv_role (reinvite role inviter i) = or_default role ''member''"
  "inv_status (reinvite role inviter i) = Pending"
  "inv_invited_by (reinvite role inviter i) = inviter"
  by (simp_all add: reinvite_def)

text \<open>
  The ledger write of the authenticated path, when the store fails no call and the
  ledger holds at most one row for the pair: afterwards it holds exactly one, pending,
  with the role of the call. Nothing else changes.
\<close>

lemma upsert_invitation_row:
  assumes "ce_invite_check_fault env = None" and "ce_invite_update_fault env = None"
    and "ce_invite_insert_fault env = None"
    and "length (filter (invitation_key w e) (workspace_invitations b)) \<le> 1"
  shows "\<exists>b' row. upsert_invitation env w e role inviter b = (None, b')
           \<and> filter (invitation_key w e) (workspace_invitations b') = [row]
           \<and> inv_role row = or_default role ''member'' \<and> inv_status row = Pending
           \<and> inv_invited_by row = inviter
           \<and> workspace_members b' = workspace_members b \<and> user_roles b' = user_roles b
           \<and> auth_users b' = auth_users b \<and> sent_mail b' = sent_mail b"
proof (cases "filter (invitation_key w e) (workspace_invitations b)")
  case Nil
  then show ?thesis
    using assms
    by (simp add: upsert_invitation_def single_row_def insert_invitation_def
        new_invitation_def invitation_key_def)
next
  case (Cons x xs)
  then have one: "filter (invitation_key w e) (workspace_invitations b) = [x]"
    using assms(4) by simp
  show ?thesis
    using assms(1-3) one
    by (simp add: upsert_invitation_def single_row_def update_invitations_def filter_reinvite)
qed

lemma send_invitation_frame:
  "workspace_invitations (snd (send_invitation env body email w b)) = workspace_invitations b
   \<and> workspace_members (snd (send_invitation env body email w b)) = workspace_members b
   \<and> user_roles (snd (send_invitation env body email w b)) = user_roles b
   \<and> auth_users (snd (send_invitation env body email w b)) = auth_users b"
  by (simp add: send_invitation_def POST_send_invitation_email_def Let_def
      split: option.splits bool.splits prod.splits)

lemma send_invitation_mail_failure:
  assumes "ce_mail_fetch_throws env = False" and "ce_sendgrid env \<noteq> Some True"
  shows "send_invitation env body email w b = (MailDeliveryError, b)"
  using assms
  by (auto simp: send_invitation_def POST_send_invitation_email_def Let_def truthy_def ok_def
      json_def split: option.splits bool.splits)

lemma send_invitation_not_forbidden:
  "fst (send_invitation env body email w b) \<noteq> Forbidden"
  by (simp add: send_invitation_def POST_send_invitation_email_def Let_def Forbidden_def
      InvitationSent_def MailDeliveryError_def json_def
      split: option.splits bool.splits prod.splits)

lemma may_invite_frame:
  assumes "workspace_members b' = workspace_members b" and "user_roles b' = user_roles b"
  shows "may_invite env user w b' = may_invite env user w b"
  using assms by (simp add: may_invite_def isSuperadmin_def)

lemma issue_authorized:
  assumes "email \<noteq> []" and "w \<noteq> []"
    and "ce_session_error env = False" and "ce_session_user env = Some user"
    and "may_invite env user w b"
    and "upsert_invitation env w email role (su_id user) b = (None, b')"
  shows "POST_invitations_create env
           (Some \<lparr>b_email = Some email, b_workspaceId = Some w, b_role = role,
                  b_workspaceName = name\<rparr>) b
         = send_invitation env
             \<lparr>b_email = Some email, b_workspaceId = Some w, b_role = role,
              b_workspaceName = name\<rparr> email w b'"
  using assms
  by (simp add: POST_invitations_create_def truthy_def or_default_def)

text \<open>A caller with a session who may not invite gets Forbidden, and nothing is written.\<close>

lemma issue_forbidden:
  assumes "email \<noteq> []" and "w \<noteq> []"
    and "ce_session_error env = False" and "ce_session_user env = Some user"
    and "\<not> may_invite env user w b"
  shows "POST_invitations_create env
           (Some \<lparr>b_email = Some email, b_workspaceId = Some w, b_role = role,
                  b_workspaceName = name\<rparr>) b
         = (Forbidden, b)"
  using assms
  by (simp add: POST_invitations_create_def truthy_def or_default_def)

lemma root_may_invite: "may_invite issue_env root_user w root_backend"
  by (simp add: may_invite_def isSuperadmin_def issue_env_def root_user_def root_backend_def
      empty_backend_def single_row_def)

lemma upsert_invitation_bypass_row:
  assumes "ce_invite_check_fault env = None" and "ce_invite_update_fault env = None"
    and "ce_invite_insert_fault env = None"
    and "length (filter (invitation_key w e) (workspace_invitations b)) \<le> 1"
  shows "\<exists>b' row. upsert_invitation_bypass env w e role inviter b = (None, b')
           \<and> filter (invitation_key w e) (workspace_invitations b') = [row]
           \<and> inv_role row = or_default role ''member'' \<and> inv_status row = Pending
           \<and> inv_invited_by row = inviter
           \<and> workspace_members b' = workspace_members b \<and> user_roles b' = user_roles b
           \<and> auth_users b' = auth_users b \<and> sent_mail b' = sent_mail b"
proof (cases "filter (invitation_key w e) (workspace_invitations b)")
  case Nil
  then show ?thesis
    using assms
    by (simp add: upsert_invitation_bypass_def single_row_def insert_invitation_def
        new_invitation_def invitation_key_def)
next
  case (Cons x xs)
  then have one: "filter (invitation_key w e) (workspace_invitations b) = [x]"
    using assms(4) by simp
  show ?thesis
    using assms(1-3) one
    by (simp add: upsert_invitation_bypass_def single_row_def update_invitations_def
        filter_reinvite)
qed

lemma issue_anonymous:
  assumes "email \<noteq> []" and "w \<noteq> []" and "caller env = None"
    and "upsert_invitation_bypass env w email role mockUser_id b = (None, b')"
  shows "POST_invitations_create env
           (Some \<lparr>b_email = Some email, b_workspaceId = Some w, b_role = role,
                  b_workspaceName = name\<rparr>) b
         = send_invitation env
             \<lparr>b_email = Some email, b_workspaceId = Some w, b_role = role,
              b_workspaceName = name\<rparr> email w b'"
  using assms
  by (simp add: POST_invitations_create_def truthy_def or_default_def caller_def)

text \<open>
  An admitted call on a ledger with at most one row for the pair, the store failing no
  call: the handler reaches the mail with exactly one row for the pair, pending, with the
  role of the call.
\<close>

lemma issue_admitted:
  assumes "email \<noteq> []" and "w \<noteq> []" and "admitted env w b"
    and "ce_invite_check_fault env = None" and "ce_invite_update_fault env = None"
    and "ce_invite_insert_fault env = None"
    and "length (filter (invitation_key w email) (workspace_invitations b)) \<le> 1"
  shows "\<exists>u row. POST_invitations_create env
           (Some \<lparr>b_email = Some email, b_workspaceId = Some w, b_role = role,
                  b_workspaceName = name\<rparr>) b
         = send_invitation env
             \<lparr>b_email = Some email, b_workspaceId = Some w, b_role = role,
              b_workspaceName = name\<rparr> email w u
       \<and> filter (invitation_key w email) (workspace_invitations u) = [row]
       \<and> inv_role row = or_default role ''member'' \<and> inv_status row = Pending
       \<and> workspace_members u = workspace_members b \<and> user_roles u = user_roles b
       \<and> sent_mail u = sent_mail b"
proof (cases "caller env")
  case None
  obtain u row where "upsert_invitation_bypass env w email role mockUser_id b = (None, u)"
    and "filter (invitation_key w email) (workspace_invitations u) = [row]"
    and "inv_role row = or_default role ''member''" and "inv_status row = Pending"
    and "workspace_members u = workspace_members b" and "user_roles u = user_roles b"
    and "sent_mail u = sent_mail b"
    using upsert_invitation_bypass_row [OF assms(4,5,6,7)] by blast
  then show ?thesis
    using issue_anonymous [OF assms(1,2) None] by blast
next
  case (Some user)
  then have s: "ce_session_error env = False" "ce_session_user env = Some user"
    by (simp_all add: caller_def split: if_splits)
  have may: "may_invite env user w b"
    using assms(3) Some by (simp add: admitted_def)
  obtain u row where "upsert_invitation env w email role (su_id user) b = (None, u)"
    and "filter (invitation_key w email) (workspace_invitations u) = [row]"
    and "inv_role row = or_default role ''member''" and "inv_status row = Pending"
    and "workspace_members u = workspace_members b" and "user_roles u = user_roles b"
    and "sent_mail u = sent_mail b"
    using upsert_invitation_row [OF assms(4,5,6,7)] by blast
  then show ?thesis
    using issue_authorized [OF assms(1,2) s may] by blast
qed

lemma admitted_frame:
  assumes "workspace_members b' = workspace_members b" and "user_roles b' = user_roles b"
  shows "admitted env w b' = admitted env w b"
  using may_invite_frame [OF assms] by (simp add: admitted_def split: option.splits)

lemma root_admitted: "admitted issue_env w root_backend"
proof -
  have "caller issue_env = Some root_user" by (simp add: caller_def issue_env_def)
  then show ?thesis by (simp add: admitted_def root_may_invite)
qed

lemma anonymous_admitted: "admitted anonymous_env w b"
  by (simp add: admitted_def caller_def anonymous_env_def issue_env_def)

lemma send_invitation_mail_throws:
  assumes "ce_mail_fetch_throws env"
  shows "send_invitation env body email w b = (json 500 False ''Failed to create invitation'', b)"
  using assms by (simp add: send_invitation_def)

text \<open>
  Claim C4. A request without a session is not refused: the handler goes on as the
  built-in superadmin, writes the ledger row and sends the mail. With no row for the pair
  and a store that fails no call, the answer is not Forbidden and the ledger has a new
  pending row, invited by the built-in user.
\<close>

theorem issue_without_session:
  assumes "email \<noteq> []" and "w \<noteq> []"
    and "ce_session_user env = None"
    and "ce_invite_check_fault env = None" and "ce_invite_insert_fault env = None"
    and "filter (invitation_key w email) (workspace_invitations b) = []"
    and "request = \<lparr>b_email = Some email, b_workspaceId = Some w, b_role = role,
                     b_workspaceName = name\<rparr>"
  shows "fst (POST_invitations_create env (Some request) b) \<noteq> Forbidden
       \<and> workspace_invitations (snd (POST_invitations_create env (Some request) b))
           = workspace_invitations b @
               [new_invitation (fresh_id (workspace_invitations b)) w email role mockUser_id]"
proof -
  have "upsert_invitation_bypass env w email role mockUser_id b
          = (None, b\<lparr>workspace_invitations := workspace_invitations b @
               [new_invitation (fresh_id (workspace_invitations b)) w email role mockUser_id]\<rparr>)"
    using assms(4,5,6)
    by (simp add: upsert_invitation_bypass_def single_row_def insert_invitation_def)
  then have "POST_invitations_create env (Some request) b
          = send_invitation env request email w
              (b\<lparr>workspace_invitations := workspace_invitations b @
               [new_invitation (fresh_id (workspace_invitations b)) w email role mockUser_id]\<rparr>)"
    using assms(1,2,3,7)
    by (simp add: POST_invitations_create_def truthy_def or_default_def)
  then show ?thesis
    by (simp add: send_invitation_not_forbidden send_invitation_frame)
qed

theorem issue_without_session_witness:
  "fst (POST_invitations_create anonymous_env (Some (invite_request ''admin'')) empty_backend)
     \<noteq> Forbidden
   \<and> workspace_invitations
       (snd (POST_invitations_create anonymous_env (Some (invite_request ''admin'')) empty_backend))
     = workspace_invitations empty_backend @
         [new_invitation (fresh_id (workspace_invitations empty_backend)) ''W'' ''new@x.com''
            (Some ''admin'') mockUser_id]"
  by (rule issue_without_session [where name = "Str ''Acme''"])
     (simp_all add: anonymous_env_def issue_env_def empty_backend_def invite_request_def)

text \<open>The same call, evaluated: the inviter is told that the invitation was sent.\<close>

lemma issue_without_session_example:
  "POST_invitations_create anonymous_env (Some (invite_request ''admin'')) empty_backend
   = (InvitationSent ''new@x.com'',
      empty_backend\<lparr>workspace_invitations :=
        [invite_W\<lparr>inv_invited_by := mockUser_id\<rparr>],
        sent_mail := [\<lparr>mail_to = ''new@x.com'',
          mail_link = ''http://localhost:3000/auth/accept-invitation?email=new%40x.com&workspace_id=W&invite_role=admin&workspace_name=Acme''\<rparr>]\<rparr>)"
  by (simp add: POST_invitations_create_def anonymous_env_def issue_env_def empty_backend_def
      invite_request_def truthy_def or_default_def upsert_invitation_bypass_def single_row_def
      insert_invitation_def invitation_key_def new_invitation_def fresh_id_def send_invitation_def
      POST_send_invitation_email_def targetLink_def invitation_query_def
      encodeURIComponent_def percent_encode_def unreserved_def unreserved_chars_def hex_digit_def
      template_def ok_def json_def InvitationSent_def invite_W_def Let_def)

text \<open>
  Claim C5. Two calls of the issuer for the same email and workspace, each let through
  by the handler (no session, or a session whose user may invite), with a store that
  fails no call, on a ledger with at most one row for the pair: afterwards the ledger has
  exactly one row for the pair, pending, with the role of the second call (\<open>member\<close>
  when that call names none).
\<close>

theorem issue_idempotent:
  assumes "email \<noteq> []" and "w \<noteq> []"
    and "length (filter (invitation_key w email) (workspace_invitations b)) \<le> 1"
    and "admitted env1 w b"
    and "ce_invite_check_fault env1 = None" and "ce_invite_update_fault env1 = None"
    and "ce_invite_insert_fault env1 = None"
    and "admitted env2 w b"
    and "ce_invite_check_fault env2 = None" and "ce_invite_update_fault env2 = None"
    and "ce_invite_insert_fault env2 = None"
    and "b1 = snd (POST_invitations_create env1
           (Some \<lparr>b_email = Some email, b_workspaceId = Some w, b_role = role1,
                  b_workspaceName = name1\<rparr>) b)"
    and "b2 = snd (POST_invitations_create env2
           (Some \<lparr>b_email = Some email, b_workspaceId = Some w, b_role = role2,
                  b_workspaceName = name2\<rparr>) b1)"
  shows "\<exists>row. filter (invitation_key w email) (workspace_invitations b2) = [row]
           \<and> inv_role row = or_default role2 ''member'' \<and> inv_status row = Pending"
proof -
  obtain u1 row1 where p1: "POST_invitations_create env1
           (Some \<lparr>b_email = Some email, b_workspaceId = Some w, b_role = role1,
                  b_workspaceName = name1\<rparr>) b
         = send_invitation env1
             \<lparr>b_email = Some email, b_workspaceId = Some w, b_role = role1,
              b_workspaceName = name1\<rparr> email w u1"
    and r1: "filter (invitation_key w email) (workspace_invitations u1) = [row1]"
    and f1: "workspace_members u1 = workspace_members b" "user_roles u1 = user_roles b"
    using issue_admitted [OF assms(1,2,4,5,6,7,3)] by blast
  have l1: "workspace_invitations b1 = workspace_invitations u1"
    and m1: "workspace_members b1 = workspace_members b" "user_roles b1 = user_roles b"
    using assms(12) p1 f1 send_invitation_frame by simp_all
  have len1: "length (filter (invitation_key w email) (workspace_invitations b1)) \<le> 1"
    using l1 r1 by simp
  have adm2: "admitted env2 w b1"
    using assms(8) admitted_frame [OF m1] by simp
  obtain u2 row2 where p2: "POST_invitations_create env2
           (Some \<lparr>b_email = Some email, b_workspaceId = Some w, b_role = role2,
                  b_workspaceName = name2\<rparr>) b1
         = send_invitation env2
             \<lparr>b_email = Some email, b_workspaceId = Some w, b_role = role2,
              b_workspaceName = name2\<rparr> email w u2"
    and r2: "filter (invitation_key w email) (workspace_invitations u2) = [row2]"
      "inv_role row2 = or_default role2 ''member''" "inv_status row2 = Pending"
    using issue_admitted [OF assms(1,2) adm2 assms(9,10,11) len1] by blast
  have "workspace_invitations b2 = workspace_invitations u2"
    using assms(13) p2 send_invitation_frame by simp
  then show ?thesis using r2 by simp
qed

theorem issue_idempotent_witness:
  "\<exists>row. filter (invitation_key ''W'' ''new@x.com'')
            (workspace_invitations
              (snd (POST_invitations_create issue_env (Some (invite_request ''admin''))
                (snd (POST_invitations_create anonymous_env (Some (invite_request ''member''))
                   root_backend))))) = [row]
         \<and> inv_role row = or_default (Some ''admin'') ''member'' \<and> inv_status row = Pending"
  unfolding invite_request_def
  by (rule issue_idempotent [where ?env1.0 = anonymous_env and ?env2.0 = issue_env
        and b = root_backend])
     (simp_all add: root_admitted anonymous_admitted,
      simp_all add: anonymous_env_def issue_env_def root_backend_def empty_backend_def)

text \<open>
  Claim C7, as the code has it. When the ledger write has gone through and the mail is
  not sent, the issuer answers with status 500 and success false: ``Failed to send
  invitation email'' when the mail route answers with an error, ``Failed to create
  invitation'' when the call of the mail route throws. The ledger keeps exactly one row
  for the pair, pending, with the role of the call: the write is not rolled back.
\<close>

theorem issue_mail_failure:
  assumes "email \<noteq> []" and "w \<noteq> []" and "admitted env w b"
    and "ce_invite_check_fault env = None" and "ce_invite_update_fault env = None"
    and "ce_invite_insert_fault env = None"
    and "length (filter (invitation_key w email) (workspace_invitations b)) \<le> 1"
    and "ce_mail_fetch_throws env \<or> ce_sendgrid env \<noteq> Some True"
    and "request = \<lparr>b_email = Some email, b_workspaceId = Some w, b_role = role,
                     b_workspaceName = name\<rparr>"
  shows "fst (POST_invitations_create env (Some request) b)
           = json 500 False (if ce_mail_fetch_throws env then ''Failed to create invitation''
                             else ''Failed to send invitation email'')
       \<and> success (fst (POST_invitations_create env (Some request) b)) = False
       \<and> (\<exists>row. filter (invitation_key w email)
                    (workspace_invitations (snd (POST_invitations_create env (Some request) b)))
                  = [row]
                \<and> inv_role row = or_default role ''member'' \<and> inv_status row = Pending)"
proof -
  obtain u row where p: "POST_invitations_create env (Some request) b
         = send_invitation env request email w u"
    and r: "filter (invitation_key w email) (workspace_invitations u) = [row]"
      "inv_role row = or_default role ''member''" "inv_status row = Pending"
    using issue_admitted [OF assms(1,2,3,4,5,6,7)] assms(9) by blast
  have "send_invitation env request email w u
          = (json 500 False (if ce_mail_fetch_throws env then ''Failed to create invitation''
                             else ''Failed to send invitation email''), u)"
  proof (cases "ce_mail_fetch_throws env")
    case True
    then show ?thesis by (simp add: send_invitation_mail_throws)
  next
    case False
    then show ?thesis
      using assms(8) send_invitation_mail_failure [of env] by (simp add: MailDeliveryError_def)
  qed
  then show ?thesis using p r by (simp add: json_def)
qed

theorem issue_mail_failure_witness:
  "(fst (POST_invitations_create mail_down (Some (invite_request ''admin'')) root_backend)
     = json 500 False (if ce_mail_fetch_throws mail_down then ''Failed to create invitation''
                       else ''Failed to send invitation email'')
   \<and> success (fst (POST_invitations_create mail_down (Some (invite_request ''admin''))
                  root_backend)) = False
   \<and> (\<exists>row. filter (invitation_key ''W'' ''new@x.com'')
         (workspace_invitations
           (snd (POST_invitations_create mail_down (Some (invite_request ''admin'')) root_backend)))
         = [row]
       \<and> inv_role row = or_default (Some ''admin'') ''member'' \<and> inv_status row = Pending))
   \<and>
   (fst (POST_invitations_create mail_throws (Some (invite_request ''admin'')) empty_backend)
     = json 500 False (if ce_mail_fetch_throws mail_throws then ''Failed to create invitation''
                       else ''Failed to send invitation email'')
   \<and> success (fst (POST_invitations_create mail_throws (Some (invite_request ''admin''))
                  empty_backend)) = False
   \<and> (\<exists>row. filter (invitation_key ''W'' ''new@x.com'')
         (workspace_invitations
           (snd (POST_invitations_create mail_throws (Some (invite_request ''admin'')) empty_backend)))
         = [row]
       \<and> inv_role row = or_default (Some ''admin'') ''member'' \<and> inv_status row = Pending))"
proof
  show "fst (POST_invitations_create mail_down (Some (invite_request ''admin'')) root_backend)
     = json 500 False (if ce_mail_fetch_throws mail_down then ''Failed to create invitation''
                       else ''Failed to send invitation email'')
   \<and> success (fst (POST_invitations_create mail_down (Some (invite_request ''admin''))
                  root_backend)) = False
   \<and> (\<exists>row. filter (invitation_key ''W'' ''new@x.com'')
         (workspace_invitations
           (snd (POST_invitations_create mail_down (Some (invite_request ''admin'')) root_backend)))
         = [row]
       \<and> inv_role row = or_default (Some ''admin'') ''member'' \<and> inv_status row = Pending)"
    by (rule issue_mail_failure [where name = "Str ''Acme''"])
       (simp_all add: mail_down_def issue_env_def root_backend_def empty_backend_def
          invite_request_def admitted_def caller_def may_invite_def isSuperadmin_def
          root_user_def single_row_def)
  show "fst (POST_invitations_create mail_throws (Some (invite_request ''admin'')) empty_backend)
     = json 500 False (if ce_mail_fetch_throws mail_throws then ''Failed to create invitation''
                       else ''Failed to send invitation email'')
   \<and> success (fst (POST_invitations_create mail_throws (Some (invite_request ''admin''))
                  empty_backend)) = False
   \<and> (\<exists>row. filter (invitation_key ''W'' ''new@x.com'')
         (workspace_invitations
           (snd (POST_invitations_create mail_throws (Some (invite_request ''admin'')) empty_backend)))
         = [row]
       \<and> inv_role row = or_default (Some ''admin'') ''member'' \<and> inv_status row = Pending)"
    by (rule issue_mail_failure [where name = "Str ''Acme''"])
       (simp_all add: mail_throws_def anonymous_env_def issue_env_def empty_backend_def
          invite_request_def admitted_def caller_def)
qed

text \<open>
  A superadmin invites and the mail service refuses the mail; a caller without a session
  invites and the call of the mail route throws. Each time the ledger row is written and
  the inviter is told that the operation failed, not that it succeeded.
\<close>

theorem issue_mail_failure_counterexample:
  "POST_invitations_create mail_down (Some (invite_request ''admin'')) root_backend
     = (MailDeliveryError, root_backend\<lparr>workspace_invitations := [invite_W]\<rparr>)
   \<and> success MailDeliveryError = False
   \<and> POST_invitations_create mail_throws (Some (invite_request ''admin'')) empty_backend
     = (json 500 False ''Failed to create invitation'',
        empty_backend\<lparr>workspace_invitations := [invite_W\<lparr>inv_invited_by := mockUser_id\<rparr>]\<rparr>)
   \<and> success (json 500 False ''Failed to create invitation'') = False"
  by (simp add: POST_invitations_create_def mail_down_def mail_throws_def anonymous_env_def
      issue_env_def root_backend_def
      empty_backend_def root_user_def
      invite_request_def truthy_def or_default_def upsert_invitation_def
      upsert_invitation_bypass_def single_row_def
      may_invite_def isSuperadmin_def
      insert_invitation_def invitation_key_def new_invitation_def fresh_id_def send_invitation_def
      POST_send_invitation_email_def
      ok_def json_def MailDeliveryError_def invite_W_def Let_def)


section \<open>The acceptance deep link\<close>

lemma split_on_none: "d \<notin> set a \<Longrightarrow> split_on d a = [a]"
  by (induction a) auto

lemma split_on_append:
  "d \<notin> set a \<Longrightarrow> split_on d (a @ d # rest) = a # split_on d rest"
  by (induction a) auto

lemma percent_decode_plain:
  "c \<noteq> CHR ''%'' \<Longrightarrow> percent_decode (c # cs) = c # percent_decode cs"
  by (cases cs rule: percent_decode.cases) auto

lemma nibbles: "\<forall>k \<in> set [0..<16]. hex_val (hex_digit k) = Some k \<and> unreserved (hex_digit k)"
  by code_simp

lemma hex_val_hex_digit: "k < 16 \<Longrightarrow> hex_val (hex_digit k) = Some k"
  using nibbles by simp

lemma hex_digit_unreserved: "k < 16 \<Longrightarrow> unreserved (hex_digit k)"
  using nibbles by simp

lemma not_unreserved: "\<not> unreserved CHR ''%''" "\<not> unreserved CHR ''+''"
  by code_simp+

lemma byte_nibbles: "(n::nat) < 256 \<Longrightarrow> n div 16 < 16 \<and> n mod 16 < 16"
  by arith

lemma char_nibbles: "(of_char c :: nat) div 16 < 16" "(of_char c :: nat) mod 16 < 16"
  using byte_nibbles [of "of_char c"] by simp_all

lemma percent_decode_encode:
  "percent_decode (percent_encode c @ rest) = c # percent_decode rest"
proof (cases "unreserved c")
  case True
  then have "c \<noteq> CHR ''%''" using not_unreserved by auto
  then show ?thesis using True by (simp add: percent_encode_def percent_decode_plain)
next
  case False
  note lt = char_nibbles [of c]
  have "char_of (16 * (of_char c div 16) + of_char c mod 16 :: nat) = c"
    by simp
  then show ?thesis
    using False by (simp add: percent_encode_def hex_val_hex_digit lt)
qed

lemma percent_decode_encodeURIComponent:
  "percent_decode (encodeURIComponent s @ rest) = s @ percent_decode rest"
  by (induction s) (simp_all add: encodeURIComponent_def percent_decode_encode)

lemma percent_encode_plain: "list_all plain (percent_encode c)"
proof -
  show ?thesis
    by (simp add: percent_encode_def plain_def hex_digit_unreserved char_nibbles)
qed

lemma encodeURIComponent_plain: "list_all plain (encodeURIComponent s)"
  by (induction s) (simp_all add: encodeURIComponent_def percent_encode_plain)

lemma delimiters_not_plain:
  "\<not> plain CHR ''&''" "\<not> plain CHR ''=''" "\<not> plain CHR ''+''" "\<not> plain CHR ''#''"
  "\<not> plain CHR ''?''"
  by code_simp+

lemma plain_no_delimiter:
  assumes "list_all plain s"
  shows "CHR ''&'' \<notin> set s" and "CHR ''='' \<notin> set s" and "CHR ''+'' \<notin> set s"
    and "CHR ''#'' \<notin> set s" and "CHR ''?'' \<notin> set s"
  using assms delimiters_not_plain by (auto simp: list_all_iff)

lemma unreserved_plain: "list_all unreserved s \<Longrightarrow> list_all plain s"
  by (auto simp: list_all_iff plain_def)

lemma plus_to_space_id: "CHR ''+'' \<notin> set s \<Longrightarrow> plus_to_space s = s"
  by (induction s) (auto simp: plus_to_space_def)

lemma percent_decode_id: "CHR ''%'' \<notin> set s \<Longrightarrow> percent_decode s = s"
  by (induction s) (auto simp: percent_decode_plain)

lemma form_decode_encoded: "form_decode (encodeURIComponent s) = s"
proof -
  have "plus_to_space (encodeURIComponent s) = encodeURIComponent s"
    by (rule plus_to_space_id) (rule plain_no_delimiter [OF encodeURIComponent_plain])
  then show ?thesis
    using percent_decode_encodeURIComponent [of s "[]"] by (simp add: form_decode_def)
qed

lemma form_decode_unreserved: "list_all unreserved s \<Longrightarrow> form_decode s = s"
proof -
  assume a: "list_all unreserved s"
  then have "CHR ''%'' \<notin> set s" using not_unreserved by (auto simp: list_all_iff)
  moreover have "CHR ''+'' \<notin> set s" using a not_unreserved by (auto simp: list_all_iff)
  ultimately show ?thesis by (simp add: form_decode_def plus_to_space_id percent_decode_id)
qed

lemma parse_pair_name_value:
  assumes "CHR ''='' \<notin> set name"
  shows "parse_pair (name @ CHR ''='' # v) = (form_decode name, form_decode v)"
proof -
  have "takeWhile (\<lambda>c. c \<noteq> CHR ''='') (name @ CHR ''='' # v) = name"
    using assms by (induction name) auto
  moreover have "dropWhile (\<lambda>c. c \<noteq> CHR ''='') (name @ CHR ''='' # v) = CHR ''='' # v"
    using assms by (induction name) auto
  ultimately show ?thesis by (simp add: parse_pair_def)
qed

lemma parse_invitation_query:
  assumes w: "list_all unreserved workspaceId"
    and r: "list_all unreserved (or_default role ''member'')"
  shows "parse_query (invitation_query email workspaceId role (Str workspaceName))
         = [(''email'', email), (''workspace_id'', workspaceId),
            (''invite_role'', or_default role ''member''), (''workspace_name'', workspaceName)]"
proof -
  let ?E = "encodeURIComponent email" and ?N = "encodeURIComponent workspaceName"
  let ?R = "or_default role ''member''"
  note E = plain_no_delimiter [OF encodeURIComponent_plain [of email]]
  note N = plain_no_delimiter [OF encodeURIComponent_plain [of workspaceName]]
  note W = plain_no_delimiter [OF unreserved_plain [OF w]]
  note R = plain_no_delimiter [OF unreserved_plain [OF r]]
  have q: "invitation_query email workspaceId role (Str workspaceName)
         = (''email='' @ ?E) @ CHR ''&'' # (''workspace_id='' @ workspaceId) @ CHR ''&'' #
           (''invite_role='' @ ?R) @ CHR ''&'' # (''workspace_name='' @ ?N)"
    by (simp add: invitation_query_def template_def)
  have "split_on CHR ''&'' (invitation_query email workspaceId role (Str workspaceName))
         = [''email='' @ ?E, ''workspace_id='' @ workspaceId, ''invite_role='' @ ?R,
            ''workspace_name='' @ ?N]"
    unfolding q
    using E(1) N(1) W(1) R(1)
    by (subst split_on_append, simp)+ (simp add: split_on_none)
  moreover have "parse_pair (''email'' @ CHR ''='' # ?E) = (''email'', email)"
    by (subst parse_pair_name_value) (simp_all add: form_decode_encoded, simp add: form_decode_def plus_to_space_def)
  moreover have "parse_pair (''workspace_id'' @ CHR ''='' # workspaceId) = (''workspace_id'', workspaceId)"
    by (subst parse_pair_name_value) (simp_all add: form_decode_unreserved w, simp add: form_decode_def plus_to_space_def)
  moreover have "parse_pair (''invite_role'' @ CHR ''='' # ?R) = (''invite_role'', ?R)"
    by (subst parse_pair_name_value) (simp_all add: form_decode_unreserved r, simp add: form_decode_def plus_to_space_def)
  moreover have "parse_pair (''workspace_name'' @ CHR ''='' # ?N) = (''workspace_name'', workspaceName)"
    by (subst parse_pair_name_value) (simp_all add: form_decode_encoded, simp add: form_decode_def plus_to_space_def)
  ultimately show ?thesis
    by (simp add: parse_query_def)
qed

lemma url_search_targetLink:
  assumes "CHR ''?'' \<notin> set (or_default base ''http://localhost:3000'')"
    and "CHR ''#'' \<notin> set (or_default base ''http://localhost:3000'')"
    and "list_all plain workspaceId" and "list_all plain (or_default role ''member'')"
  shows "url_search (targetLink base email workspaceId role (Str workspaceName))
         = invitation_query email workspaceId role (Str workspaceName)"
proof -
  let ?B = "or_default base ''http://localhost:3000''"
  let ?q = "invitation_query email workspaceId role (Str workspaceName)"
  note E = plain_no_delimiter [OF encodeURIComponent_plain [of email]]
  note N = plain_no_delimiter [OF encodeURIComponent_plain [of workspaceName]]
  note W = plain_no_delimiter [OF assms(3)]
  note R = plain_no_delimiter [OF assms(4)]
  have "CHR ''#'' \<notin> set ?q"
    using E(4) N(4) W(4) R(4) by (simp add: invitation_query_def template_def)
  then have "CHR ''#'' \<notin> set (?B @ ''/auth/accept-invitation?'' @ ?q)"
    using assms(2) by simp
  then have cut: "takeWhile (\<lambda>c. c \<noteq> CHR ''#'') (?B @ ''/auth/accept-invitation?'' @ ?q)
              = ?B @ ''/auth/accept-invitation?'' @ ?q"
    by (simp only: takeWhile_eq_all_conv) blast
  have "dropWhile (\<lambda>c. c \<noteq> CHR ''?'') (?B @ ''/auth/accept-invitation?'' @ ?q)
          = dropWhile (\<lambda>c. c \<noteq> CHR ''?'') (''/auth/accept-invitation?'' @ ?q)"
    using assms(1) by (intro dropWhile_append2) auto
  then have "dropWhile (\<lambda>c. c \<noteq> CHR ''?'') (?B @ ''/auth/accept-invitation?'' @ ?q)
          = CHR ''?'' # ?q"
    by simp
  then show ?thesis
    unfolding url_search_def targetLink_def cut by simp
qed

text \<open>
  The link, read the way the acceptance page reads it, when the workspace id and the role
  consist of unreserved characters and the base URL has no query or fragment.
\<close>

lemma targetLink_parameters:
  assumes "list_all unreserved workspaceId"
    and "list_all unreserved (or_default role ''member'')"
    and "CHR ''?'' \<notin> set (or_default base ''http://localhost:3000'')"
    and "CHR ''#'' \<notin> set (or_default base ''http://localhost:3000'')"
  shows "parse_query (url_search (targetLink base email workspaceId role (Str workspaceName)))
         = [(''email'', email), (''workspace_id'', workspaceId),
            (''invite_role'', or_default role ''member''), (''workspace_name'', workspaceName)]"
  using assms
  by (simp add: url_search_targetLink unreserved_plain parse_invitation_query)

lemma targetLink_parameters_example:
  "parse_query (url_search (targetLink None ''new@x.com'' ''W'' (Some ''admin'') (Str ''Acme'')))
   = [(''email'', ''new@x.com''), (''workspace_id'', ''W''),
      (''invite_role'', or_default (Some ''admin'') ''member''), (''workspace_name'', ''Acme'')]"
  by (rule targetLink_parameters)
     (simp_all add: or_default_def unreserved_def unreserved_chars_def)

text \<open>The acceptance page gets its invitation data from such a link.\<close>

lemma accept_page_reads_link:
  assumes "list_all unreserved workspaceId"
    and "list_all unreserved (or_default role ''member'')"
    and "CHR ''?'' \<notin> set (or_default base ''http://localhost:3000'')"
    and "CHR ''#'' \<notin> set (or_default base ''http://localhost:3000'')"
    and "email \<noteq> []" and "workspaceId \<noteq> []"
  shows "AcceptInvitation_load (url_search (targetLink base email workspaceId role (Str workspaceName)))
         = Some \<lparr>d_email = email, d_workspaceId = workspaceId,
                 d_inviteRole = or_default role ''member'',
                 d_workspaceName = or_default (Some workspaceName) ''Workspace''\<rparr>"
  using assms(5,6)
  by (simp add: AcceptInvitation_load_def get_param_def targetLink_parameters [OF assms(1-4)]
      truthy_def or_default_def split: option.splits)

lemma insert_invitation_sent_mail:
  "insert_invitation uniq fault w e role inviter b = (r, b') \<Longrightarrow> sent_mail b' = sent_mail b"
  by (auto simp: insert_invitation_def split: option.splits if_splits)

lemma update_invitations_sent_mail:
  "sent_mail (snd (update_invitations fault sel upd b)) = sent_mail b"
  by (simp add: update_invitations_def split: option.splits)

lemma upsert_invitation_sent_mail:
  "sent_mail (snd (upsert_invitation env w e role inviter b)) = sent_mail b"
  by (auto simp: upsert_invitation_def update_invitations_sent_mail
      split: option.splits prod.splits dest: insert_invitation_sent_mail)

lemma upsert_invitation_bypass_sent_mail:
  "sent_mail (snd (upsert_invitation_bypass env w e role inviter b)) = sent_mail b"
proof -
  have retry: "\<And>b1. sent_mail (snd (insert_invitation (ce_unique_key env)
                  (ce_retry_insert_fault env) w e role inviter b1)) = sent_mail b1"
    using insert_invitation_sent_mail by (metis prod.collapse)
  show ?thesis
    by (auto simp: upsert_invitation_bypass_def update_invitations_sent_mail retry
        split: option.splits prod.splits dest: insert_invitation_sent_mail)
qed

lemma targetLink_not_empty: "targetLink base email w role name \<noteq> []"
  by (simp add: targetLink_def)

text \<open>A call of the mail stage that answers success has sent one mail, with the link.\<close>

lemma send_invitation_success:
  assumes "success (fst (send_invitation env body email w b))"
  shows "sent_mail (snd (send_invitation env body email w b))
         = sent_mail b @
             [\<lparr>mail_to = email,
               mail_link = targetLink (ce_base_url env) email w (b_role body)
                             (b_workspaceName body)\<rparr>]"
proof -
  have t: "truthy (Some (targetLink (ce_base_url env) email w (b_role body) (b_workspaceName body)))"
    by (simp add: truthy_def targetLink_not_empty)
  have o: "or_default (Some (targetLink (ce_base_url env) email w (b_role body)
                               (b_workspaceName body))) []
           = targetLink (ce_base_url env) email w (b_role body) (b_workspaceName body)"
    by (simp add: or_default_def)
  show ?thesis
    using assms
    by (auto simp: send_invitation_def POST_send_invitation_email_def Let_def t o
        MailDeliveryError_def InvitationSent_def json_def ok_def or_default_def
        split: if_splits option.splits bool.splits)
qed

text \<open>A call of the issuer that answers success has gone through the mail stage.\<close>

lemma issue_success:
  assumes "success (fst (POST_invitations_create env (Some body) b))"
  shows "\<exists>u. sent_mail u = sent_mail b
           \<and> POST_invitations_create env (Some body) b
             = send_invitation env body (or_default (b_email body) [])
                 (or_default (b_workspaceId body) []) u"
proof (cases "if ce_session_error env then None else ce_session_user env")
  case None
  show ?thesis
  proof (cases "upsert_invitation_bypass env (or_default (b_workspaceId body) [])
                  (or_default (b_email body) []) (b_role body) mockUser_id b")
    case (Pair r u)
    have "sent_mail u = sent_mail b"
      using upsert_invitation_bypass_sent_mail
        [of env "or_default (b_workspaceId body) []" "or_default (b_email body) []"
            "b_role body" mockUser_id b] Pair by simp
    then show ?thesis
      using assms None Pair
      by (auto simp: POST_invitations_create_def Let_def MissingFields_def json_def
          upsert_invitation_bypass_def
          split: if_splits option.splits prod.splits)
  qed
next
  case (Some user)
  show ?thesis
  proof (cases "upsert_invitation env (or_default (b_workspaceId body) [])
                  (or_default (b_email body) []) (b_role body) (su_id user) b")
    case (Pair r u)
    have "sent_mail u = sent_mail b"
      using upsert_invitation_sent_mail
        [of env "or_default (b_workspaceId body) []" "or_default (b_email body) []"
            "b_role body" "su_id user" b] Pair by simp
    then show ?thesis
      using assms Some Pair
      by (auto simp: POST_invitations_create_def Let_def MissingFields_def Forbidden_def json_def
          upsert_invitation_def
          split: if_splits option.splits prod.splits)
  qed
qed

text \<open>
  Claim C8, as the code has it. Whenever the issuer answers success, it has sent one mail
  to the invitee, and the link in it, read the way the acceptance page reads it, carries
  exactly four query parameters: \<open>email\<close>, \<open>workspace_id\<close>, \<open>invite_role\<close> and
  \<open>workspace_name\<close>, bound to the invitee's email, the workspace id, the invited role
  (\<open>member\<close> when the call names none) and the workspace name. This is so when the
  request names a workspace name and the workspace id and the role consist of unreserved
  characters, as a UUID and the role names do: the issuer percent-encodes the email and
  the workspace name only. The base URL has no query or fragment of its own.
\<close>

theorem issued_link_parameters:
  assumes "success (fst (POST_invitations_create env (Some body) b))"
    and "b_workspaceName body = Str workspaceName"
    and "list_all unreserved (or_default (b_workspaceId body) [])"
    and "list_all unreserved (or_default (b_role body) ''member'')"
    and "CHR ''?'' \<notin> set (or_default (ce_base_url env) ''http://localhost:3000'')"
    and "CHR ''#'' \<notin> set (or_default (ce_base_url env) ''http://localhost:3000'')"
  shows "\<exists>link. sent_mail (snd (POST_invitations_create env (Some body) b))
                  = sent_mail b @ [\<lparr>mail_to = or_default (b_email body) [], mail_link = link\<rparr>]
              \<and> parse_query (url_search link)
                  = [(''email'', or_default (b_email body) []),
                     (''workspace_id'', or_default (b_workspaceId body) []),
                     (''invite_role'', or_default (b_role body) ''member''),
                     (''workspace_name'', workspaceName)]"
proof -
  obtain u where u: "sent_mail u = sent_mail b"
    and p: "POST_invitations_create env (Some body) b
             = send_invitation env body (or_default (b_email body) [])
                 (or_default (b_workspaceId body) []) u"
    using issue_success [OF assms(1)] by blast
  have "success (fst (send_invitation env body (or_default (b_email body) [])
                        (or_default (b_workspaceId body) []) u))"
    using assms(1) p by simp
  then have "sent_mail (snd (POST_invitations_create env (Some body) b))
         = sent_mail b @
             [\<lparr>mail_to = or_default (b_email body) [],
               mail_link = targetLink (ce_base_url env) (or_default (b_email body) [])
                             (or_default (b_workspaceId body) []) (b_role body)
                             (Str workspaceName)\<rparr>]"
    using send_invitation_success p u assms(2) by simp
  then show ?thesis
    using targetLink_parameters [OF assms(3,4,5,6)] by simp
qed

theorem issued_link_parameters_witness:
  "\<exists>link. sent_mail (snd (POST_invitations_create anonymous_env
                            (Some (invite_request ''admin'')) empty_backend))
            = sent_mail empty_backend @
                [\<lparr>mail_to = or_default (b_email (invite_request ''admin'')) [], mail_link = link\<rparr>]
        \<and> parse_query (url_search link)
            = [(''email'', or_default (b_email (invite_request ''admin'')) []),
               (''workspace_id'', or_default (b_workspaceId (invite_request ''admin'')) []),
               (''invite_role'', or_default (b_role (invite_request ''admin'')) ''member''),
               (''workspace_name'', ''Acme'')]"
  by (rule issued_link_parameters)
     (simp_all add: issue_without_session_example InvitationSent_def json_def,
      simp_all add: invite_request_def or_default_def anonymous_env_def issue_env_def
         unreserved_def unreserved_chars_def)

text \<open>
  A role with a delimiter in it: the issuer answers success and mails a link with five
  parameters, two of them named \<open>workspace_name\<close>, and the role that the page reads is
  not the role of the invitation.
\<close>

lemma evil_link:
  "parse_query (url_search
     ''http://localhost:3000/auth/accept-invitation?email=new%40x.com&workspace_id=W&invite_role=admin&workspace_name=Evil&workspace_name=Acme'')
   = [(''email'', ''new@x.com''), (''workspace_id'', ''W''), (''invite_role'', ''admin''),
      (''workspace_name'', ''Evil''), (''workspace_name'', ''Acme'')]"
  by code_simp

theorem issued_link_parameters_counterexample:
  "fst (POST_invitations_create issue_env (Some evil_request) root_backend)
     = InvitationSent ''new@x.com''
   \<and> parse_query (url_search (mail_link (last (sent_mail
         (snd (POST_invitations_create issue_env (Some evil_request) root_backend))))))
     = [(''email'', ''new@x.com''), (''workspace_id'', ''W''), (''invite_role'', ''admin''),
        (''workspace_name'', ''Evil''), (''workspace_name'', ''Acme'')]"
proof -
  have "POST_invitations_create issue_env (Some evil_request) root_backend
   = (InvitationSent ''new@x.com'',
      root_backend\<lparr>workspace_invitations :=
        [invite_W\<lparr>inv_role := ''admin&workspace_name=Evil''\<rparr>],
        sent_mail := [\<lparr>mail_to = ''new@x.com'',
          mail_link = ''http://localhost:3000/auth/accept-invitation?email=new%40x.com&workspace_id=W&invite_role=admin&workspace_name=Evil&workspace_name=Acme''\<rparr>]\<rparr>)"
    by (simp add: POST_invitations_create_def evil_request_def issue_env_def root_backend_def
      empty_backend_def root_user_def may_invite_def isSuperadmin_def
      invite_request_def truthy_def or_default_def upsert_invitation_def single_row_def
      insert_invitation_def invitation_key_def new_invitation_def fresh_id_def send_invitation_def
      POST_send_invitation_email_def targetLink_def invitation_query_def
      encodeURIComponent_def percent_encode_def unreserved_def unreserved_chars_def hex_digit_def
      template_def ok_def json_def InvitationSent_def invite_W_def Let_def)
  then show ?thesis
    by (simp add: evil_link)
qed


section \<open>The Registration/Acceptance Handler\<close>

lemma find_snoc:
  "List.find P xs = None \<Longrightarrow> P u \<Longrightarrow> List.find P (xs @ [u]) = Some u"
  by (induction xs) (auto split: if_splits)

text \<open>
  Claim C2. The acceptance handler itself writes \<open>accepted\<close> into the ledger, right
  after the account is created: when the provider reports a new account that is not
  confirmed, the row of the invitation is accepted while the identity has no confirmation
  time and no membership exists.
\<close>

theorem accept_marks_accepted:
  assumes "av_password values = av_confirmPassword values"
    and "ae_signUp env = Inr (Some u)" and "email_confirmed_at u = None"
    and "List.find (\<lambda>x. au_id x = au_id u) (auth_users b) = None"
    and "ae_invite_update_fault env = None"
    and "i \<in> set (workspace_invitations b)"
    and "invitation_key (d_workspaceId d) (av_email values) i"
    and "inv_status i = Pending"
    and "b' = accept_backend (AcceptInvitation_onFinish env (Some d) values b ls)"
  shows "fst (AcceptInvitation_onFinish env (Some d) values b ls) = ShowSuccess
       \<and> mark_accepted (ae_now env) i \<in> set (workspace_invitations b')
       \<and> inv_status (mark_accepted (ae_now env) i) = Accepted
       \<and> List.find (\<lambda>x. au_id x = au_id u) (auth_users b') = Some u
       \<and> workspace_members b' = workspace_members b"
  using assms
  by (auto simp: AcceptInvitation_onFinish_def signUp_def update_invitations_def Let_def
      mark_accepted_def accept_backend_def find_snoc)

theorem accept_marks_accepted_witness:
  "fst (AcceptInvitation_onFinish new_account (Some link_data) form_values
          (empty_backend\<lparr>workspace_invitations := [invite_W]\<rparr>) Map.empty) = ShowSuccess
   \<and> mark_accepted (ae_now new_account) invite_W
       \<in> set (workspace_invitations (accept_backend
            (AcceptInvitation_onFinish new_account (Some link_data) form_values
               (empty_backend\<lparr>workspace_invitations := [invite_W]\<rparr>) Map.empty)))
   \<and> inv_status (mark_accepted (ae_now new_account) invite_W) = Accepted
   \<and> List.find (\<lambda>x. au_id x = au_id alice_unconfirmed)
         (auth_users (accept_backend
            (AcceptInvitation_onFinish new_account (Some link_data) form_values
               (empty_backend\<lparr>workspace_invitations := [invite_W]\<rparr>) Map.empty)))
       = Some alice_unconfirmed
   \<and> workspace_members (accept_backend
         (AcceptInvitation_onFinish new_account (Some link_data) form_values
            (empty_backend\<lparr>workspace_invitations := [invite_W]\<rparr>) Map.empty))
       = workspace_members (empty_backend\<lparr>workspace_invitations := [invite_W]\<rparr>)"
  by (rule accept_marks_accepted)
     (simp_all add: new_account_def link_data_def form_values_def empty_backend_def invite_W_def
        invitation_key_def alice_unconfirmed_def alice_def)

section \<open>The Session-Login Sweep\<close>

lemma removeItems_apply:
  "removeItems ks ls k = (if k \<in> set ks then None else ls k)"
  unfolding removeItems_def
  by (induction ks arbitrary: ls) auto

lemma get_param_empty [simp]: "get_param [] name = None"
  by (simp add: get_param_def parse_query_def)



lemma link_query_params:
  "get_param link_query ''email'' = Some ''new@x.com''"
  "get_param link_query ''workspace_id'' = Some ''W''"
  "get_param link_query ''invite_role'' = Some ''admin''"
  "get_param link_query ''workspace_name'' = Some ''Acme''"
  by (simp_all add: link_query_def get_param_def parse_invitation_query or_default_def
      unreserved_def unreserved_chars_def)

lemma registration_storage:
  "RegisterPage_load link_query Map.empty
   = Map.empty(''is_registration_page'' \<mapsto> ''true'',
               ''pending_invitation_email'' \<mapsto> ''new@x.com'',
               ''pending_invitation_workspace_id'' \<mapsto> ''W'',
               ''pending_invitation_role'' \<mapsto> ''admin'',
               ''pending_invitation_workspace_name'' \<mapsto> ''Acme'',
               ''process_pending_invitation'' \<mapsto> ''true'')"
  by (simp add: RegisterPage_load_def link_query_params set_if_def truthy_def)

lemma cancelled_backend:
  "handleCancelInvitation None 1 invited_backend
   = (True, invited_backend\<lparr>workspace_invitations := [invite_W\<lparr>inv_status := Cancelled\<rparr>]\<rparr>)"
  by (simp add: handleCancelInvitation_def update_invitations_def invited_backend_def
      empty_backend_def invite_W_def mark_cancelled_def)

text \<open>
  Claim C3. The sweep that runs at sign-in takes the workspace from the stored intent and
  inserts the membership without reading the ledger. With the flag and the workspace id
  that the registration page stored from the link's parameters, a user who is not yet a
  member becomes one although the only ledger row for the pair is cancelled.
\<close>

theorem sweep_ignores_cancellation:
  assumes "li_signedIn env = Some user"
    and "sw_search (li_sweep env) = []"
    and "sw_member_check_fault (li_sweep env) = None"
    and "sw_member_insert_fault (li_sweep env) = None"
    and "ls ''process_pending_invitation'' = Some ''true''"
    and "ls ''pending_workspace_id'' = None"
    and "ls ''pending_invitation_workspace_id'' = Some w" and "w \<noteq> []"
    and "ls ''pending_confirmation_email'' = None"
    and "filter (member_key w (au_id user)) (workspace_members b) = []"
    and "filter (invitation_key w (au_email user)) (workspace_invitations b) = [i]"
    and "inv_status i = Cancelled"
  shows "workspace_members (login_backend (LoginPage_onFinish env (au_email user) b ls))
           = workspace_members b @
               [\<lparr>mem_workspace_id = w, mem_user_id = au_id user, mem_role = ''member''\<rparr>]"
proof -
  let ?row = "\<lparr>mem_workspace_id = w, mem_user_id = au_id user, mem_role = ''member''\<rparr>"
  let ?b1 = "snd (update_invitations (sw_invite_update_fault (li_sweep env))
                    (invitation_key w (template (optional (sw_user_email (li_sweep env)))))
                    (mark_accepted (sw_now (li_sweep env)))
                    (b\<lparr>workspace_members := workspace_members b @ [?row]\<rparr>))"
  have sweep: "processPendingInvitations (li_sweep env) (au_id user) b ls
          = (True, ?b1, removeItems invitation_flags ls)"
    using assms(2-8,10)
    by (simp add: processPendingInvitations_def store_url_invitation_def Let_def js_or_def
        truthy_def or_default_def single_row_def insert_member_def)
  have members: "workspace_members ?b1 = workspace_members b @ [?row]"
    by (simp add: update_invitations_def split: option.splits)
  have "removeItems invitation_flags ls ''process_pending_invitation'' = None"
    and "removeItems invitation_flags ls ''pending_confirmation_email'' = None"
    using assms(9) by (simp_all add: removeItems_apply invitation_flags_def)
  then have "login_backend (LoginPage_onFinish env (au_email user) b ls) = ?b1"
    using assms(1) sweep
    by (simp add: LoginPage_onFinish_def signIn_def login_backend_def Let_def)
  then show ?thesis using members by simp
qed

theorem sweep_ignores_cancellation_witness:
  "workspace_members
     (login_backend
        (LoginPage_onFinish (login_as alice) (au_email alice)
           (snd (handleCancelInvitation None 1 invited_backend))
           (RegisterPage_load link_query Map.empty)))
   = workspace_members (snd (handleCancelInvitation None 1 invited_backend)) @
       [\<lparr>mem_workspace_id = ''W'', mem_user_id = au_id alice, mem_role = ''member''\<rparr>]"
  by (rule sweep_ignores_cancellation [where i = "invite_W\<lparr>inv_status := Cancelled\<rparr>"])
     (simp_all add: registration_storage cancelled_backend,
      simp_all add: login_as_def quiet_sweep_def invited_backend_def empty_backend_def
        alice_def invite_W_def invitation_key_def member_key_def handleCancelInvitation_def
        update_invitations_def mark_cancelled_def)









section \<open>Acceptance followed by login\<close>

text \<open>
  The acceptance handler followed by a login, with a provider that confirms at once: the
  handler has marked the row accepted, so the reconciler that the login calls finds no
  pending row, and the invitee does not become a member.
\<close>

lemma accept_example:
  "AcceptInvitation_onFinish autoconfirmed_account (Some link_data) form_values
     (empty_backend\<lparr>workspace_invitations := [invite_W]\<rparr>) Map.empty
   = (ShowSuccess,
      empty_backend\<lparr>workspace_invitations := [mark_accepted 3 invite_W], auth_users := [new_user]\<rparr>,
      confirmation_storage)"
  by (simp add: AcceptInvitation_onFinish_def signUp_def autoconfirmed_account_def new_account_def
      link_data_def form_values_def empty_backend_def invite_W_def update_invitations_def
      invitation_key_def mark_accepted_def new_user_def confirmation_storage_def Let_def
      fun_upd_twist)

lemma login_after_accept_example:
  "LoginPage_onFinish (login_as new_user) ''new@x.com''
     (empty_backend\<lparr>workspace_invitations := [mark_accepted 3 invite_W], auth_users := [new_user]\<rparr>)
     confirmation_storage
   = (ToDashboard, ConfirmEmailCall NoPendingInvitation,
      empty_backend\<lparr>workspace_invitations := [mark_accepted 3 invite_W], auth_users := [new_user]\<rparr>,
      removeItems (invitation_flags @ confirmation_data) confirmation_storage)"
  by (simp add: LoginPage_onFinish_def signIn_def processPendingInvitations_def
      store_url_invitation_def login_as_def quiet_sweep_def confirmation_storage_def
      Let_def js_or_def truthy_def or_default_def new_user_def
      POST_confirm_email_def add_membership_def single_row_def pending_for_def mark_accepted_def
      invite_W_def no_confirm_faults_def getUserById_def empty_backend_def)

end
